theory Spec2Isabelle
  imports Complex_Main "HOL-Library.Sublist"
begin

section \<open>Python values and library functions\<close>

text \<open>
  The parsed bbmodel document is what \<^verbatim>\<open>json.loads\<close> returns: \<^verbatim>\<open>None\<close>, a bool, an int, a
  float, a str, a list or a dict. A dict is kept as the list of its items in insertion
  order; \<^verbatim>\<open>d.get(k)\<close> is the first item with key \<open>k\<close>.

  Python floats are modelled by the real numbers they denote: rounding, overflow, infinities
  and NaN are outside the model. Python strings are modelled as \<open>string\<close> (ASCII text).
\<close>

datatype json =
    JNull
  | JBool bool
  | JInt int
  | JFloat real
  | JStr string
  | JArr "json list"
  | JObj "(string \<times> json) list"

type_synonym bytes = "char list"

text \<open>
  Functions of the Python standard library that the script calls and whose code is not part
  of the repository are parameters of the model:
  \<^item> \<open>int_of_str s\<close> is \<^verbatim>\<open>int(s)\<close> for a str, \<open>None\<close> where it raises \<^verbatim>\<open>ValueError\<close>;
  \<^item> \<open>float_of_str s\<close> is \<^verbatim>\<open>float(s)\<close> for a str, \<open>None\<close> where it raises \<^verbatim>\<open>ValueError\<close>;
  \<^item> \<open>repr_of v\<close> is \<^verbatim>\<open>str(v)\<close> for a float, a list or a dict;
  \<^item> \<open>b64decode s\<close> is \<^verbatim>\<open>base64.b64decode(s, validate=False)\<close>, \<open>None\<close> where it raises
    \<^verbatim>\<open>ValueError\<close> or \<^verbatim>\<open>binascii.Error\<close>;
  \<^item> \<open>path_stem s\<close> is \<^verbatim>\<open>Path(s).stem\<close>;
  \<^item> \<open>is_absolute s\<close> is \<^verbatim>\<open>Path(s).is_absolute()\<close>, \<open>joinpath d s\<close> is \<^verbatim>\<open>d / s\<close>;
  \<^item> \<open>json_dumps v\<close> is \<^verbatim>\<open>json.dumps(v, indent=2)\<close>.
\<close>

record pylib =
  int_of_str :: "string \<Rightarrow> int option"
  float_of_str :: "string \<Rightarrow> real option"
  repr_of :: "json \<Rightarrow> string"
  b64decode :: "string \<Rightarrow> bytes option"
  path_stem :: "string \<Rightarrow> string"
  is_absolute :: "string \<Rightarrow> bool"
  joinpath :: "string \<Rightarrow> string \<Rightarrow> string"
  json_dumps :: "json \<Rightarrow> string"

text \<open>\<^verbatim>\<open>d.get(k)\<close>: the value, or \<^verbatim>\<open>None\<close> when the key is absent.\<close>

definition dict_get :: "(string \<times> json) list \<Rightarrow> string \<Rightarrow> json" where
  "dict_get d k = (case map_of d k of None \<Rightarrow> JNull | Some v \<Rightarrow> v)"

text \<open>\<^verbatim>\<open>d[k] = v\<close>: an existing key keeps its position, a new key is appended.\<close>

fun dict_set :: "('k \<times> 'v) list \<Rightarrow> 'k \<Rightarrow> 'v \<Rightarrow> ('k \<times> 'v) list" where
  "dict_set [] k v = [(k, v)]"
| "dict_set ((k', v') # d) k v = (if k' = k then (k, v) # d else (k', v') # dict_set d k v)"

text \<open>Truth value of a Python object, as \<^verbatim>\<open>bool(v)\<close> and \<^verbatim>\<open>v or w\<close> take it.\<close>

fun truthy :: "json \<Rightarrow> bool" where
  "truthy JNull = False"
| "truthy (JBool b) = b"
| "truthy (JInt i) = (i \<noteq> 0)"
| "truthy (JFloat r) = (r \<noteq> 0)"
| "truthy (JStr s) = (s \<noteq> [])"
| "truthy (JArr xs) = (xs \<noteq> [])"
| "truthy (JObj d) = (d \<noteq> [])"

text \<open>Decimal digits of a natural number and of an integer: \<^verbatim>\<open>str(n)\<close>.\<close>

definition digit_char :: "nat \<Rightarrow> char" where
  "digit_char d = ''0123456789'' ! d"

fun str_nat :: "nat \<Rightarrow> string" where
  "str_nat n = (if n < 10 then [digit_char n] else str_nat (n div 10) @ [digit_char (n mod 10)])"

declare str_nat.simps [simp del]

definition str_int :: "int \<Rightarrow> string" where
  "str_int i = (if i < 0 then CHR ''-'' # str_nat (nat (- i)) else str_nat (nat i))"

text \<open>\<^verbatim>\<open>str(v)\<close>.\<close>

fun py_str :: "pylib \<Rightarrow> json \<Rightarrow> string" where
  "py_str L (JStr s) = s"
| "py_str L (JInt i) = str_int i"
| "py_str L (JBool b) = (if b then ''True'' else ''False'')"
| "py_str L JNull = ''None''"
| "py_str L v = repr_of L v"

text \<open>
  \<^verbatim>\<open>float(v)\<close>: \<open>None\<close> where Python raises \<^verbatim>\<open>TypeError\<close> or \<^verbatim>\<open>ValueError\<close>, which the
  callers catch together.
\<close>

fun py_float :: "pylib \<Rightarrow> json \<Rightarrow> real option" where
  "py_float L (JBool b) = Some (if b then 1 else 0)"
| "py_float L (JInt i) = Some (of_int i)"
| "py_float L (JFloat r) = Some r"
| "py_float L (JStr s) = float_of_str L s"
| "py_float L v = None"

text \<open>\<^verbatim>\<open>value.is_integer()\<close> of a float.\<close>

definition is_integer :: "real \<Rightarrow> bool" where
  "is_integer r = (r = of_int \<lfloor>r\<rfloor>)"

section \<open>Names\<close>

text \<open>\<^verbatim>\<open>PACK_NAME_PATTERN.sub("_", raw.lower())\<close> with the pattern \<^verbatim>\<open>[^a-z0-9_.]\<close>.\<close>

definition lower_char :: "char \<Rightarrow> char" where
  "lower_char c =
     (case map_of (zip ''ABCDEFGHIJKLMNOPQRSTUVWXYZ'' ''abcdefghijklmnopqrstuvwxyz'') c of
        Some l \<Rightarrow> l
      | None \<Rightarrow> c)"

definition pack_char :: "char \<Rightarrow> bool" where
  "pack_char c = (c \<in> set ''abcdefghijklmnopqrstuvwxyz0123456789_.'')"

definition to_pack_name :: "string \<Rightarrow> string" where
  "to_pack_name raw = map (\<lambda>c. if pack_char c then c else CHR ''_'') (map lower_char raw)"

section \<open>Numeric coercion\<close>

text \<open>
  \<^verbatim>\<open>read_positive_int(value, dflt)\<close>. The bool test comes first, since a Python bool is
  an int. The function has no failing branch: the \<^verbatim>\<open>ValueError\<close> of \<^verbatim>\<open>int(value)\<close> is caught.
\<close>

fun read_positive_int :: "pylib \<Rightarrow> json \<Rightarrow> int \<Rightarrow> int" where
  "read_positive_int L (JBool b) dflt = dflt"
| "read_positive_int L (JInt i) dflt = (if i > 0 then i else dflt)"
| "read_positive_int L (JFloat r) dflt =
     (if is_integer r then (let parsed = \<lfloor>r\<rfloor> in if parsed > 0 then parsed else dflt)
      else dflt)"
| "read_positive_int L (JStr s) dflt =
     (case int_of_str L s of
        Some parsed \<Rightarrow> (if parsed > 0 then parsed else dflt)
      | None \<Rightarrow> dflt)"
| "read_positive_int L v dflt = dflt"

section \<open>Errors\<close>

text \<open>
  Every failure of the script is a call of \<^verbatim>\<open>fail(message)\<close>, which prints the message and
  exits. There is one constructor for each call site, carrying what the message is built
  from. \<open>UncaughtException\<close> stands for a Python exception that the script does not catch
  (\<^verbatim>\<open>AttributeError\<close> from \<^verbatim>\<open>.get\<close> on a value that is not a dict, \<^verbatim>\<open>IndexError\<close>).
\<close>

datatype error =
    InvalidArray string string nat
  | NonNumericArray string string
  | MalformedDataUrl nat
  | InvalidBase64 nat
  | ExternalSourceMissing nat string
  | ExternalPathMissing nat string
  | NoTextureSource nat
  | TexturesNotArray
  | TextureNotObject nat
  | NonNumericTextureRef string string string
  | InvalidTextureRef string string
  | RotationObjectIncomplete string
  | MultiAxisRotation string "real list"
  | UnsupportedRotationFormat string
  | ElementsNotArray
  | ElementNotObject nat
  | MissingFaces string
  | MissingTextureIndex string string string
  | NoVisibleElements
  | DestinationExists string
  | UncaughtException string



section \<open>Vectors of numbers\<close>

text \<open>
  \<^verbatim>\<open>ensure_list3\<close> and \<^verbatim>\<open>ensure_list4\<close>: the value is a list of the right length, and
  \<^verbatim>\<open>float\<close> accepts each item.
\<close>

fun ensure_list3 :: "pylib \<Rightarrow> json \<Rightarrow> string \<Rightarrow> string \<Rightarrow> error + real list" where
  "ensure_list3 L (JArr [a, b, c]) label elem_name =
     (case py_float L a of None \<Rightarrow> Inl (NonNumericArray elem_name label) | Some x \<Rightarrow>
      case py_float L b of None \<Rightarrow> Inl (NonNumericArray elem_name label) | Some y \<Rightarrow>
      case py_float L c of None \<Rightarrow> Inl (NonNumericArray elem_name label) | Some z \<Rightarrow>
      Inr [x, y, z])"
| "ensure_list3 L v label elem_name = Inl (InvalidArray elem_name label 3)"

fun ensure_list4 :: "pylib \<Rightarrow> json \<Rightarrow> string \<Rightarrow> string \<Rightarrow> error + real list" where
  "ensure_list4 L (JArr [a, b, c, d]) label elem_name =
     (case py_float L a of None \<Rightarrow> Inl (NonNumericArray elem_name label) | Some x \<Rightarrow>
      case py_float L b of None \<Rightarrow> Inl (NonNumericArray elem_name label) | Some y \<Rightarrow>
      case py_float L c of None \<Rightarrow> Inl (NonNumericArray elem_name label) | Some z \<Rightarrow>
      case py_float L d of None \<Rightarrow> Inl (NonNumericArray elem_name label) | Some u \<Rightarrow>
      Inr [x, y, z, u])"
| "ensure_list4 L v label elem_name = Inl (InvalidArray elem_name label 4)"

section \<open>Texture payloads\<close>

text \<open>
  The file system maps a path to what is there. Errors of the operating system while
  reading or writing (permissions, a full disk) are outside the model.
\<close>

datatype fs_entry = File bytes | Dir

type_synonym filesystem = "string \<Rightarrow> fs_entry option"

definition path_exists :: "filesystem \<Rightarrow> string \<Rightarrow> bool" where
  "path_exists fs p = (fs p \<noteq> None)"

text \<open>\<^verbatim>\<open>source.find(",")\<close>: the position of the first comma, or \<open>-1\<close>.\<close>

definition str_find :: "char \<Rightarrow> string \<Rightarrow> int" where
  "str_find c s = (if c \<in> set s then int (length (takeWhile (\<lambda>x. x \<noteq> c) s)) else - 1)"

text \<open>
  The external branches of \<^verbatim>\<open>decode_texture_source\<close>: the path is taken as it is when
  absolute, below the directory of the bbmodel file otherwise; \<^verbatim>\<open>is_file()\<close> decides.
\<close>

definition resolve_external :: "pylib \<Rightarrow> string \<Rightarrow> string \<Rightarrow> string" where
  "resolve_external L bbmodel_dir p = (if is_absolute L p then p else joinpath L bbmodel_dir p)"

definition decode_texture_source ::
  "pylib \<Rightarrow> filesystem \<Rightarrow> (string \<times> json) list \<Rightarrow> string \<Rightarrow> nat \<Rightarrow> error + bytes" where
  "decode_texture_source L fs texture bbmodel_dir idx =
     (let from_path =
        (case dict_get texture ''path'' of
           JStr path_value \<Rightarrow>
             (if path_value \<noteq> [] then
                (let external = resolve_external L bbmodel_dir path_value in
                 case fs external of
                   Some (File data) \<Rightarrow> Inr data
                 | _ \<Rightarrow> Inl (ExternalPathMissing idx external))
              else Inl (NoTextureSource idx))
         | _ \<Rightarrow> Inl (NoTextureSource idx))
      in case dict_get texture ''source'' of
           JStr source \<Rightarrow>
             (if source \<noteq> [] then
                (if prefix ''data:'' source then
                   (let comma = str_find CHR '','' source in
                    if comma < 0 then Inl (MalformedDataUrl idx)
                    else (let payload = drop (nat (comma + 1)) source in
                          case b64decode L payload of
                            Some data \<Rightarrow> Inr data
                          | None \<Rightarrow> Inl (InvalidBase64 idx)))
                 else
                   (let external = resolve_external L bbmodel_dir source in
                    case fs external of
                      Some (File data) \<Rightarrow> Inr data
                    | _ \<Rightarrow> Inl (ExternalSourceMissing idx external)))
              else from_path)
         | _ \<Rightarrow> from_path)"

section \<open>Texture plans\<close>

record texture_plan =
  index :: nat
  file_stem :: string
  rel_namespace_path :: string
  png_bytes :: bytes
  mcmeta_json :: "json option"

text \<open>The naming context that \<^verbatim>\<open>main\<close> passes to \<^verbatim>\<open>build_texture_plans\<close>.\<close>

record naming =
  namespace :: string
  asset :: string
  variant :: string
  model_name :: string
  prefix_textures :: bool

text \<open>Lines 191 to 198: the candidate stem of texture \<open>idx\<close>.\<close>

definition texture_default_name :: "nat \<Rightarrow> string" where
  "texture_default_name idx = ''texture_'' @ str_nat idx"

definition candidate_stem :: "pylib \<Rightarrow> naming \<Rightarrow> (string \<times> json) list \<Rightarrow> nat \<Rightarrow> string" where
  "candidate_stem L N texture idx =
     (let name = dict_get texture ''name'';
          raw_name = py_str L (if truthy name then name else JStr (texture_default_name idx));
          stem = path_stem L raw_name;
          stem = to_pack_name (if stem \<noteq> [] then stem else texture_default_name idx);
          stem = (if prefix_textures N then to_pack_name (model_name N @ ''_'' @ stem) else stem)
      in if stem = [] then texture_default_name idx else stem)"

text \<open>
  Lines 199 to 203: the loop that looks for an unused stem. \<open>used\<close> lists the members of
  the set \<^verbatim>\<open>used_names\<close>.
\<close>

definition suffixed :: "string \<Rightarrow> nat \<Rightarrow> string" where
  "suffixed stem suffix_no = stem @ ''_'' @ str_nat suffix_no"

function dedup_loop :: "string list \<Rightarrow> string \<Rightarrow> string \<Rightarrow> nat \<Rightarrow> string" where
  "dedup_loop used stem unique_stem suffix_no =
     (if unique_stem \<in> set used then dedup_loop used stem (suffixed stem suffix_no) (suffix_no + 1)
      else unique_stem)"
  by pat_completeness auto

definition unique_stem_of :: "string list \<Rightarrow> string \<Rightarrow> string" where
  "unique_stem_of used stem = dedup_loop used stem stem 2"

text \<open>Lines 214 to 219: the animation test on the coerced dimensions.\<close>

definition is_animated :: "int \<Rightarrow> int \<Rightarrow> int \<Rightarrow> int \<Rightarrow> bool" where
  "is_animated width height uv_width uv_height =
     (if uv_width > 0 \<and> uv_height > 0 then
        (let width_ratio = (if width > 0 then real_of_int width / real_of_int uv_width else 0);
             height_ratio = (if height > 0 then real_of_int height / real_of_int uv_height else 0)
         in height_ratio > width_ratio)
      else width > 0 \<and> height > width)"

text \<open>Lines 207 to 228: the animation metadata of one texture.\<close>

definition texture_mcmeta :: "pylib \<Rightarrow> (string \<times> json) list \<Rightarrow> json option" where
  "texture_mcmeta L texture =
     (let width = read_positive_int L (dict_get texture ''width'') 0;
          height = read_positive_int L (dict_get texture ''height'') 0;
          uv_width = read_positive_int L (dict_get texture ''uv_width'') 0;
          uv_height = read_positive_int L (dict_get texture ''uv_height'') 0;
          frame_time = read_positive_int L (dict_get texture ''frame_time'') 1;
          frame_interpolate = truthy (dict_get texture ''frame_interpolate'')
      in if is_animated width height uv_width uv_height then
           Some (JObj [(''animation'',
                   JObj [(''interpolate'', JBool frame_interpolate),
                         (''frametime'', JInt frame_time)])])
         else None)"

text \<open>
  The loop of \<^verbatim>\<open>build_texture_plans\<close> over \<^verbatim>\<open>enumerate(raw_textures)\<close>, from index \<open>idx\<close> on,
  with the plans and the used names built so far.
\<close>

fun texture_loop ::
  "pylib \<Rightarrow> filesystem \<Rightarrow> string \<Rightarrow> naming \<Rightarrow> nat \<Rightarrow> texture_plan list \<Rightarrow> string list \<Rightarrow>
   json list \<Rightarrow> error + texture_plan list" where
  "texture_loop L fs bbmodel_dir N idx plans used_names [] = Inr plans"
| "texture_loop L fs bbmodel_dir N idx plans used_names (JObj texture # rest) =
     (let stem = candidate_stem L N texture idx;
          unique_stem = unique_stem_of used_names stem;
          used_names = used_names @ [unique_stem]
      in case decode_texture_source L fs texture bbmodel_dir idx of
           Inl e \<Rightarrow> Inl e
         | Inr data \<Rightarrow>
             texture_loop L fs bbmodel_dir N (idx + 1)
               (plans @
                [\<lparr>index = idx, file_stem = unique_stem,
                  rel_namespace_path =
                    namespace N @ '':item/'' @ asset N @ ''/'' @ variant N @ ''/'' @ unique_stem,
                  png_bytes = data, mcmeta_json = texture_mcmeta L texture\<rparr>])
               used_names rest)"
| "texture_loop L fs bbmodel_dir N idx plans used_names (v # rest) = Inl (TextureNotObject idx)"

definition build_texture_plans ::
  "pylib \<Rightarrow> filesystem \<Rightarrow> (string \<times> json) list \<Rightarrow> string \<Rightarrow> naming \<Rightarrow> error + texture_plan list" where
  "build_texture_plans L fs bbmodel bbmodel_dir N =
     (case dict_get bbmodel ''textures'' of
        JArr raw_textures \<Rightarrow> texture_loop L fs bbmodel_dir N 0 [] [] raw_textures
      | _ \<Rightarrow> Inl TexturesNotArray)"

section \<open>Geometry\<close>

definition VALID_FACES :: "string list" where
  "VALID_FACES = [''north'', ''east'', ''south'', ''west'', ''up'', ''down'']"

text \<open>
  \<^verbatim>\<open>convert_face_uv\<close>. Indexing a list shorter than four raises \<^verbatim>\<open>IndexError\<close>
  (\<open>None\<close>); the caller passes the result of \<^verbatim>\<open>ensure_list4\<close>.
\<close>

fun convert_face_uv :: "real list \<Rightarrow> int \<Rightarrow> int \<Rightarrow> real list option" where
  "convert_face_uv (u0 # v0 # u1 # v1 # others) model_resolution_width model_resolution_height =
     (let scale_width = real_of_int model_resolution_width / 16;
          scale_height = real_of_int model_resolution_height / 16;
          scale_width = (if scale_width \<le> 0 then 1 else scale_width);
          scale_height = (if scale_height \<le> 0 then 1 else scale_height)
      in Some [u0 / scale_width, v0 / scale_height, u1 / scale_width, v1 / scale_height])"
| "convert_face_uv raw_uv model_resolution_width model_resolution_height = None"

text \<open>
  \<^verbatim>\<open>isinstance(v, int)\<close> holds of an int and of a bool, and \<^verbatim>\<open>isinstance(v, (int, float))\<close>
  of a float as well. \<open>int_value\<close> and \<open>number_value\<close> give the number such a value
  compares as (\<^verbatim>\<open>True == 1\<close>); they are \<open>None\<close> where the test fails.
\<close>

fun int_value :: "json \<Rightarrow> int option" where
  "int_value (JBool b) = Some (if b then 1 else 0)"
| "int_value (JInt i) = Some i"
| "int_value v = None"

fun number_value :: "json \<Rightarrow> real option" where
  "number_value (JBool b) = Some (if b then 1 else 0)"
| "number_value (JInt i) = Some (of_int i)"
| "number_value (JFloat r) = Some r"
| "number_value v = None"

text \<open>
  \<^verbatim>\<open>resolve_texture_index\<close>. The first test is \<^verbatim>\<open>isinstance(raw, int)\<close>, which a bool passes,
  and the value is returned as it is: the result is a bool or an int.
\<close>

fun resolve_texture_index :: "pylib \<Rightarrow> json \<Rightarrow> string \<Rightarrow> string \<Rightarrow> error + json" where
  "resolve_texture_index L (JBool b) elem_name face_name = Inr (JBool b)"
| "resolve_texture_index L (JInt i) elem_name face_name = Inr (JInt i)"
| "resolve_texture_index L (JFloat r) elem_name face_name =
     (if is_integer r then Inr (JInt \<lfloor>r\<rfloor>) else Inl (InvalidTextureRef elem_name face_name))"
| "resolve_texture_index L (JStr s) elem_name face_name =
     (case int_of_str L s of
        Some i \<Rightarrow> Inr (JInt i)
      | None \<Rightarrow> Inl (NonNumericTextureRef elem_name face_name s))"
| "resolve_texture_index L v elem_name face_name = Inl (InvalidTextureRef elem_name face_name)"

text \<open>
  \<^verbatim>\<open>tex_index in texture_lookup\<close>: the keys of the dict are the \<^verbatim>\<open>plan.index\<close>, and a key is
  found by its hash and \<^verbatim>\<open>==\<close>, so \<^verbatim>\<open>True\<close> finds the key 1.
\<close>

definition in_texture_lookup :: "json \<Rightarrow> texture_plan list \<Rightarrow> bool" where
  "in_texture_lookup tex_index texture_plans =
     (case int_value tex_index of
        Some i \<Rightarrow> i \<in> set (map (\<lambda>plan. int (index plan)) texture_plans)
      | None \<Rightarrow> False)"

text \<open>\<^verbatim>\<open>convert_rotation\<close>. The constant \<^verbatim>\<open>1e-7\<close> is read as the real number.\<close>

fun convert_rotation ::
  "pylib \<Rightarrow> json \<Rightarrow> (string \<times> json) list \<Rightarrow> string \<Rightarrow> error + json option" where
  "convert_rotation L JNull elem elem_name = Inr None"
| "convert_rotation L (JObj raw_rotation) elem elem_name =
     (let axis = dict_get raw_rotation ''axis'';
          angle = dict_get raw_rotation ''angle'';
          origin = dict_get raw_rotation ''origin''
      in if axis \<in> set [JStr ''x'', JStr ''y'', JStr ''z''] \<and> number_value angle \<noteq> None then
           (case ensure_list3 L origin ''rotation.origin'' elem_name of
              Inl e \<Rightarrow> Inl e
            | Inr org \<Rightarrow>
                (let converted =
                       [(''axis'', axis), (''angle'', JFloat (the (number_value angle))),
                        (''origin'', JArr (map JFloat org))];
                     converted =
                       (if dict_get raw_rotation ''rescale'' = JBool True
                        then dict_set converted ''rescale'' (JBool True) else converted)
                 in Inr (Some (JObj converted))))
         else Inl (RotationObjectIncomplete elem_name))"
| "convert_rotation L (JArr raw_rotation) elem elem_name =
     (case ensure_list3 L (JArr raw_rotation) ''rotation'' elem_name of
        Inl e \<Rightarrow> Inl e
      | Inr vec \<Rightarrow>
          (let non_zero =
                 filter (\<lambda>(axis, value). \<bar>value\<bar> > 1 / 10 ^ 7) (zip [''x'', ''y'', ''z''] vec)
           in if non_zero = [] then Inr None
              else if length non_zero > 1 then Inl (MultiAxisRotation elem_name vec)
              else (let (axis, angle) = hd non_zero
                    in case ensure_list3 L (dict_get elem ''origin'') ''origin'' elem_name of
                         Inl e \<Rightarrow> Inl e
                       | Inr org \<Rightarrow>
                           Inr (Some (JObj [(''axis'', JStr axis), (''angle'', JFloat angle),
                                            (''origin'', JArr (map JFloat org))])))))"
| "convert_rotation L v elem elem_name = Inl (UnsupportedRotationFormat elem_name)"

text \<open>Lines 369 to 392: the target face of a source face that is a dict.\<close>

definition convert_face ::
  "pylib \<Rightarrow> texture_plan list \<Rightarrow> int \<Rightarrow> int \<Rightarrow> string \<Rightarrow> string \<Rightarrow> (string \<times> json) list \<Rightarrow>
   error + json" where
  "convert_face L texture_plans model_resolution_width model_resolution_height elem_name face_name
     raw_face =
     (case resolve_texture_index L (dict_get raw_face ''texture'') elem_name face_name of
        Inl e \<Rightarrow> Inl e
      | Inr tex_index \<Rightarrow>
          if \<not> in_texture_lookup tex_index texture_plans
          then Inl (MissingTextureIndex elem_name face_name (py_str L tex_index))
          else
            (case ensure_list4 L (dict_get raw_face ''uv'') ''face uv'' elem_name of
               Inl e \<Rightarrow> Inl e
             | Inr raw_uv \<Rightarrow>
                 (case convert_face_uv raw_uv model_resolution_width model_resolution_height of
                    None \<Rightarrow> Inl (UncaughtException ''IndexError'')
                  | Some uv \<Rightarrow>
                      (let face_obj =
                             [(''uv'', JArr (map JFloat uv)),
                              (''texture'', JStr (''#'' @ py_str L tex_index))];
                           face_rotation = dict_get raw_face ''rotation'';
                           face_obj =
                             (case number_value face_rotation of
                                Some r \<Rightarrow>
                                  if r \<noteq> 0 then dict_set face_obj ''rotation'' (JFloat r)
                                  else face_obj
                              | None \<Rightarrow> face_obj);
                           tint = dict_get raw_face ''tint'';
                           face_obj =
                             (case int_value tint of
                                Some i \<Rightarrow>
                                  if i \<ge> 0 then dict_set face_obj ''tintindex'' tint else face_obj
                              | None \<Rightarrow> face_obj);
                           tintindex = dict_get raw_face ''tintindex'';
                           face_obj =
                             (case int_value tintindex of
                                Some i \<Rightarrow>
                                  if i \<ge> 0 then dict_set face_obj ''tintindex'' tintindex
                                  else face_obj
                              | None \<Rightarrow> face_obj)
                       in Inr (JObj face_obj)))))"

text \<open>
  Lines 363 to 394: the loop over the face names, with the dict \<^verbatim>\<open>faces\<close> built so far. A face
  that is absent or not a dict is passed over.
\<close>

fun faces_loop ::
  "pylib \<Rightarrow> texture_plan list \<Rightarrow> int \<Rightarrow> int \<Rightarrow> string \<Rightarrow> (string \<times> json) list \<Rightarrow>
   (string \<times> json) list \<Rightarrow> string list \<Rightarrow> error + (string \<times> json) list" where
  "faces_loop L texture_plans w h elem_name raw_faces faces [] = Inr faces"
| "faces_loop L texture_plans w h elem_name raw_faces faces (face_name # rest) =
     (case dict_get raw_faces face_name of
        JObj raw_face \<Rightarrow>
          (case convert_face L texture_plans w h elem_name face_name raw_face of
             Inl e \<Rightarrow> Inl e
           | Inr face_obj \<Rightarrow>
               faces_loop L texture_plans w h elem_name raw_faces
                 (dict_set faces face_name face_obj) rest)
      | _ \<Rightarrow> faces_loop L texture_plans w h elem_name raw_faces faces rest)"

text \<open>
  Lines 342 to 400: the target element of a visible source element \<open>elem\<close> at position
  \<open>idx\<close>, or \<open>None\<close> when it has no face and is passed over.
\<close>

definition element_name :: "pylib \<Rightarrow> (string \<times> json) list \<Rightarrow> nat \<Rightarrow> string" where
  "element_name L elem idx =
     (let name = dict_get elem ''name''
      in py_str L (if truthy name then name else JStr (''element_'' @ str_nat idx)))"

definition convert_element ::
  "pylib \<Rightarrow> texture_plan list \<Rightarrow> int \<Rightarrow> int \<Rightarrow> (string \<times> json) list \<Rightarrow> nat \<Rightarrow>
   error + json option" where
  "convert_element L texture_plans w h elem idx =
     (let elem_name = element_name L elem idx
      in case ensure_list3 L (dict_get elem ''from'') ''from'' elem_name of
           Inl e \<Rightarrow> Inl e
         | Inr from_vec \<Rightarrow>
      case ensure_list3 L (dict_get elem ''to'') ''to'' elem_name of
           Inl e \<Rightarrow> Inl e
         | Inr to_vec \<Rightarrow>
      case convert_rotation L (dict_get elem ''rotation'') elem elem_name of
           Inl e \<Rightarrow> Inl e
         | Inr rotation \<Rightarrow>
      (let converted = [(''from'', JArr (map JFloat from_vec)), (''to'', JArr (map JFloat to_vec))];
           converted =
             (case rotation of
                Some r \<Rightarrow> dict_set converted ''rotation'' r
              | None \<Rightarrow> converted);
           converted =
             (if dict_get elem ''shade'' = JBool False
              then dict_set converted ''shade'' (JBool False) else converted);
           light_emission = dict_get elem ''light_emission'';
           converted =
             (case int_value light_emission of
                Some i \<Rightarrow>
                  if i > 0 then dict_set converted ''light_emission'' light_emission
                  else converted
              | None \<Rightarrow> converted)
       in case dict_get elem ''faces'' of
            JObj raw_faces \<Rightarrow>
              (case faces_loop L texture_plans w h elem_name raw_faces [] VALID_FACES of
                 Inl e \<Rightarrow> Inl e
               | Inr faces \<Rightarrow>
                   if faces = [] then Inr None
                   else Inr (Some (JObj (dict_set converted ''faces'' (JObj faces)))))
          | _ \<Rightarrow> Inl (MissingFaces elem_name)))"

text \<open>
  Lines 334 to 400: the loop over \<^verbatim>\<open>enumerate(elements)\<close>, from index \<open>idx\<close> on, with the
  list \<^verbatim>\<open>converted_elements\<close> built so far. \<^verbatim>\<open>elem.get("visibility", True) is False\<close> holds
  of the JSON value \<^verbatim>\<open>false\<close> only.
\<close>

fun elements_loop ::
  "pylib \<Rightarrow> texture_plan list \<Rightarrow> int \<Rightarrow> int \<Rightarrow> nat \<Rightarrow> json list \<Rightarrow> json list \<Rightarrow>
   error + json list" where
  "elements_loop L texture_plans w h idx converted_elements [] = Inr converted_elements"
| "elements_loop L texture_plans w h idx converted_elements (JObj elem # rest) =
     (if map_of elem ''visibility'' = Some (JBool False)
      then elements_loop L texture_plans w h (idx + 1) converted_elements rest
      else
        (case convert_element L texture_plans w h elem idx of
           Inl e \<Rightarrow> Inl e
         | Inr None \<Rightarrow> elements_loop L texture_plans w h (idx + 1) converted_elements rest
         | Inr (Some converted) \<Rightarrow>
             elements_loop L texture_plans w h (idx + 1) (converted_elements @ [converted]) rest))"
| "elements_loop L texture_plans w h idx converted_elements (v # rest) =
     Inl (ElementNotObject idx)"

section \<open>The target document\<close>

text \<open>
  Lines 323 to 327: the texture table, a dict from \<^verbatim>\<open>str(plan.index)\<close> to the resource
  reference, with the key \<^verbatim>\<open>"particle"\<close> when there is a plan.
\<close>

definition texture_object :: "texture_plan list \<Rightarrow> (string \<times> string) list" where
  "texture_object texture_plans =
     (let tbl = fold (\<lambda>plan d. dict_set d (str_nat (index plan)) (rel_namespace_path plan))
                  texture_plans []
      in if texture_plans \<noteq> []
         then dict_set tbl ''particle'' (rel_namespace_path (hd texture_plans)) else tbl)"

definition build_model_json ::
  "pylib \<Rightarrow> (string \<times> json) list \<Rightarrow> texture_plan list \<Rightarrow> int \<Rightarrow> int \<Rightarrow> error + json" where
  "build_model_json L bbmodel texture_plans model_resolution_width model_resolution_height =
     (case dict_get bbmodel ''elements'' of
        JArr elements \<Rightarrow>
          (case elements_loop L texture_plans model_resolution_width model_resolution_height
                  0 [] elements of
             Inl e \<Rightarrow> Inl e
           | Inr converted_elements \<Rightarrow>
               if converted_elements = [] then Inl NoVisibleElements
               else
                 (let out = [(''textures'',
                               JObj (map (\<lambda>(k, v). (k, JStr v)) (texture_object texture_plans))),
                             (''elements'', JArr converted_elements)];
                      out = (if dict_get bbmodel ''front_gui_light'' = JBool True
                             then dict_set out ''gui_light'' (JStr ''front'') else out);
                      display = dict_get bbmodel ''display'';
                      out = (case display of
                               JObj d \<Rightarrow> if d \<noteq> [] then dict_set out ''display'' display else out
                             | _ \<Rightarrow> out)
                  in Inr (JObj out)))
      | _ \<Rightarrow> Inl ElementsNotArray)"

section \<open>Writing the output\<close>

text \<open>\<^verbatim>\<open>sep.join(xs)\<close>.\<close>

fun str_join :: "string \<Rightarrow> string list \<Rightarrow> string" where
  "str_join sep [] = []"
| "str_join sep [x] = x"
| "str_join sep (x # y # ys) = x @ sep @ str_join sep (y # ys)"

definition newline :: string where
  "newline = [CHR 0x0A]"

text \<open>
  \<^verbatim>\<open>ensure_writable\<close>. The message lists the first ten colliding paths, one on a line, and
  counts the others.
\<close>

definition collision_message :: "string list \<Rightarrow> string" where
  "collision_message collisions =
     (let preview = str_join newline (map (\<lambda>p. ''- '' @ p) (take 10 collisions));
          rest = (if length collisions \<le> 10 then []
                  else newline @ ''... and '' @ str_nat (length collisions - 10) @ '' more'')
      in ''Destination files already exist. Use --force to overwrite.'' @ newline @ preview @ rest)"

definition ensure_writable :: "filesystem \<Rightarrow> string list \<Rightarrow> bool \<Rightarrow> error + unit" where
  "ensure_writable fs paths force =
     (if force then Inr ()
      else (let collisions = filter (path_exists fs) paths
            in if collisions \<noteq> [] then Inl (DestinationExists (collision_message collisions))
               else Inr ()))"

text \<open>
  The part of \<^verbatim>\<open>main\<close> from line 448 on. Its inputs are the values that lines 428 to 446
  compute from the command line: the normalized names, the resolved assets root, the
  directory of the bbmodel file and the two flags, and the document that \<^verbatim>\<open>read_bbmodel\<close>
  parsed. What the run prints is not modelled.
\<close>

record run_args =
  names :: naming
  assets_root :: string
  bbmodel_dir :: string
  force :: bool
  dry_run :: bool

text \<open>\<^verbatim>\<open>bbmodel.get("resolution", {}).get(k)\<close>.\<close>

definition resolution_field :: "json \<Rightarrow> string \<Rightarrow> error + json" where
  "resolution_field bbmodel k =
     (case bbmodel of
        JObj doc \<Rightarrow>
          (case map_of doc ''resolution'' of
             None \<Rightarrow> Inr JNull
           | Some (JObj resolution) \<Rightarrow> Inr (dict_get resolution k)
           | Some v \<Rightarrow> Inl (UncaughtException ''AttributeError''))
      | _ \<Rightarrow> Inl (UncaughtException ''AttributeError''))"

text \<open>Lines 468 to 476: the planned paths.\<close>

definition model_dir :: "pylib \<Rightarrow> run_args \<Rightarrow> string" where
  "model_dir L A =
     foldl (joinpath L) (assets_root A)
       [namespace (names A), ''models'', ''item'', asset (names A), variant (names A)]"

definition texture_dir :: "pylib \<Rightarrow> run_args \<Rightarrow> string" where
  "texture_dir L A =
     foldl (joinpath L) (assets_root A)
       [namespace (names A), ''textures'', ''item'', asset (names A), variant (names A)]"

definition model_path :: "pylib \<Rightarrow> run_args \<Rightarrow> string" where
  "model_path L A = joinpath L (model_dir L A) (model_name (names A) @ ''.json'')"

definition texture_paths :: "pylib \<Rightarrow> run_args \<Rightarrow> texture_plan list \<Rightarrow> string list" where
  "texture_paths L A texture_plans =
     map (\<lambda>t. joinpath L (texture_dir L A) (file_stem t @ ''.png'')) texture_plans"

definition mcmeta_paths :: "pylib \<Rightarrow> run_args \<Rightarrow> texture_plan list \<Rightarrow> string list" where
  "mcmeta_paths L A texture_plans =
     map (\<lambda>t. joinpath L (texture_dir L A) (file_stem t @ ''.png.mcmeta''))
       (filter (\<lambda>t. mcmeta_json t \<noteq> None) texture_plans)"

definition planned_paths :: "pylib \<Rightarrow> run_args \<Rightarrow> texture_plan list \<Rightarrow> string list" where
  "planned_paths L A texture_plans =
     model_path L A # texture_paths L A texture_plans @ mcmeta_paths L A texture_plans"

text \<open>
  Lines 497 to 507: the writes. \<^verbatim>\<open>mkdir(parents=True, exist_ok=True)\<close> leaves an existing
  entry as it is; the parent directories it creates are not recorded.
\<close>

definition mkdir :: "filesystem \<Rightarrow> string \<Rightarrow> filesystem" where
  "mkdir fs p = (if path_exists fs p then fs else fs(p \<mapsto> Dir))"

definition write_outputs ::
  "pylib \<Rightarrow> run_args \<Rightarrow> json \<Rightarrow> texture_plan list \<Rightarrow> filesystem \<Rightarrow> filesystem" where
  "write_outputs L A model_json texture_plans fs =
     (let fs = mkdir fs (model_dir L A);
          fs = mkdir fs (texture_dir L A);
          fs = fs(model_path L A \<mapsto> File (json_dumps L model_json @ newline));
          fs = fold (\<lambda>(tex, path) fs. fs(path \<mapsto> File (png_bytes tex)))
                 (zip texture_plans (texture_paths L A texture_plans)) fs
      in fold (\<lambda>tex fs.
                 case mcmeta_json tex of
                   None \<Rightarrow> fs
                 | Some meta \<Rightarrow>
                     fs(joinpath L (texture_dir L A) (file_stem tex @ ''.png.mcmeta'')
                          \<mapsto> File (json_dumps L meta @ newline)))
           texture_plans fs)"

text \<open>The run: its outcome and the file system it leaves.\<close>

definition main :: "pylib \<Rightarrow> run_args \<Rightarrow> json \<Rightarrow> filesystem \<Rightarrow> (error + unit) \<times> filesystem" where
  "main L A bbmodel fs =
     (case resolution_field bbmodel ''width'' of
        Inl e \<Rightarrow> (Inl e, fs)
      | Inr raw_width \<Rightarrow>
     case resolution_field bbmodel ''height'' of
        Inl e \<Rightarrow> (Inl e, fs)
      | Inr raw_height \<Rightarrow>
     case bbmodel of
        JObj doc \<Rightarrow>
          (let model_resolution_width = read_positive_int L raw_width 16;
               model_resolution_height = read_positive_int L raw_height 16
           in case build_texture_plans L fs doc (bbmodel_dir A) (names A) of
                Inl e \<Rightarrow> (Inl e, fs)
              | Inr texture_plans \<Rightarrow>
             case build_model_json L doc texture_plans
                    model_resolution_width model_resolution_height of
                Inl e \<Rightarrow> (Inl e, fs)
              | Inr model_json \<Rightarrow>
             case ensure_writable fs (planned_paths L A texture_plans) (force A) of
                Inl e \<Rightarrow> (Inl e, fs)
              | Inr u \<Rightarrow>
                  if dry_run A then (Inr (), fs)
                  else (Inr (), write_outputs L A model_json texture_plans fs))
      | _ \<Rightarrow> (Inl (UncaughtException ''AttributeError''), fs))"

section \<open>The elements that are kept\<close>

text \<open>
  The elements that the loop over the elements keeps: a dict that is not marked invisible
  (line 339) and whose \<^verbatim>\<open>faces\<close> dict has a dict under one of the six face names (lines 366
  and 396).
\<close>

fun is_dict :: "json \<Rightarrow> bool" where
  "is_dict (JObj d) = True"
| "is_dict v = False"

definition visible_textured :: "json \<Rightarrow> bool" where
  "visible_textured e =
     (case e of
        JObj elem \<Rightarrow>
          map_of elem ''visibility'' \<noteq> Some (JBool False) \<and>
          (case dict_get elem ''faces'' of
             JObj raw_faces \<Rightarrow>
               list_ex (\<lambda>face_name. is_dict (dict_get raw_faces face_name)) VALID_FACES
           | _ \<Rightarrow> False)
      | _ \<Rightarrow> False)"

section \<open>A library and documents to run the model on\<close>

text \<open>
  An instance of the library parameters for running the model on examples: decimal digit
  strings for \<^verbatim>\<open>int\<close>, no string accepted by \<^verbatim>\<open>float\<close>, a stem that ends at the first dot,
  paths that are absolute when they start with a slash, and a payload that decodes to
  itself.
\<close>

definition digits_value :: "string \<Rightarrow> int option" where
  "digits_value s =
     (if s \<noteq> [] \<and> list_all (\<lambda>c. c \<in> set ''0123456789'') s
      then Some (foldl (\<lambda>acc c. 10 * acc + int (length (takeWhile (\<lambda>d. d \<noteq> c) ''0123456789''))) 0 s) else None)"

definition test_lib :: pylib where
  "test_lib = \<lparr>
     int_of_str = digits_value,
     float_of_str = (\<lambda>s. None),
     repr_of = (\<lambda>v. ''?''),
     b64decode = (\<lambda>s. if s = ''!'' then None else Some s),
     path_stem = takeWhile (\<lambda>c. c \<noteq> CHR ''.''),
     is_absolute = (\<lambda>p. p \<noteq> [] \<and> hd p = CHR ''/''),
     joinpath = (\<lambda>d p. d @ ''/'' @ p),
     json_dumps = (\<lambda>v. ''{}'')\<rparr>"

definition test_names :: naming where
  "test_names = \<lparr>namespace = ''bloodstone'', asset = ''gem'', variant = ''default'',
     model_name = ''gem'', prefix_textures = False\<rparr>"

text \<open>Two textures that are both named \<^verbatim>\<open>tex\<close>, with inline payloads.\<close>

definition two_tex_doc :: "(string \<times> json) list" where
  "two_tex_doc =
     [(''textures'',
       JArr [JObj [(''name'', JStr ''tex''), (''source'', JStr ''data:image/png;base64,AAAA'')],
             JObj [(''name'', JStr ''tex''), (''source'', JStr ''data:image/png;base64,BBBB'')]])]"


text \<open>
  A cube from 0 to 16 with one face in each direction, each with the whole texture 0, in
  a document with one texture and the resolution 16 by 16.
\<close>

definition cube_face :: json where
  "cube_face = JObj [(''uv'', JArr [JInt 0, JInt 0, JInt 16, JInt 16]), (''texture'', JInt 0)]"

definition cube_elem :: "(string \<times> json) list" where
  "cube_elem =
     [(''name'', JStr ''cube''),
      (''from'', JArr [JInt 0, JInt 0, JInt 0]),
      (''to'', JArr [JInt 16, JInt 16, JInt 16]),
      (''faces'', JObj [(''north'', cube_face), (''east'', cube_face), (''south'', cube_face),
                        (''west'', cube_face), (''up'', cube_face), (''down'', cube_face)])]"

definition cube_doc :: "(string \<times> json) list" where
  "cube_doc =
     [(''resolution'', JObj [(''width'', JInt 16), (''height'', JInt 16)]),
      (''textures'',
       JArr [JObj [(''name'', JStr ''tex''), (''source'', JStr ''data:image/png;base64,AAAA'')]]),
      (''elements'', JArr [JObj cube_elem])]"

text \<open>The face that a cube face becomes at the resolution 16 by 16.\<close>

definition cube_face_out :: json where
  "cube_face_out =
     JObj [(''uv'', JArr [JFloat 0, JFloat 0, JFloat 16, JFloat 16]), (''texture'', JStr ''#0'')]"

definition cube_out :: json where
  "cube_out =
     JObj [(''from'', JArr [JFloat 0, JFloat 0, JFloat 0]),
           (''to'', JArr [JFloat 16, JFloat 16, JFloat 16]),
           (''faces'', JObj [(''north'', cube_face_out), (''east'', cube_face_out),
                             (''south'', cube_face_out), (''west'', cube_face_out),
                             (''up'', cube_face_out), (''down'', cube_face_out)])]"

text \<open>Texture plans with the indices 0 and 1.\<close>

definition test_plans :: "texture_plan list" where
  "test_plans =
     [\<lparr>index = 0, file_stem = ''tex'',
        rel_namespace_path = ''bloodstone:item/gem/default/tex'',
        png_bytes = ''AAAA'', mcmeta_json = None\<rparr>,
      \<lparr>index = 1, file_stem = ''tex_2'',
        rel_namespace_path = ''bloodstone:item/gem/default/tex_2'',
        png_bytes = ''BBBB'', mcmeta_json = None\<rparr>]"

text \<open>Eleven planned paths that all exist.\<close>

definition eleven_paths :: "string list" where
  "eleven_paths =
     [''/x/A'', ''/x/B'', ''/x/C'', ''/x/D'', ''/x/E'', ''/x/F'', ''/x/G'', ''/x/H'', ''/x/I'',
      ''/x/J'', ''/x/K'']"

definition eleven_fs :: filesystem where
  "eleven_fs = (\<lambda>p. if p \<in> set eleven_paths then Some (File []) else None)"

text \<open>Arguments of a run, without the overwrite flag.\<close>

definition test_args :: run_args where
  "test_args = \<lparr>names = test_names, assets_root = ''/assets'', bbmodel_dir = ''/models'',
     force = False, dry_run = False\<rparr>"

text \<open>
  An element that is marked invisible, an element whose only face entry is \<^verbatim>\<open>null\<close>, and a
  document whose elements are all marked invisible.
\<close>

definition hidden_elem :: "(string \<times> json) list" where
  "hidden_elem = [(''name'', JStr ''hidden''), (''visibility'', JBool False)]"

definition faceless_elem :: "(string \<times> json) list" where
  "faceless_elem =
     [(''from'', JArr [JInt 0, JInt 0, JInt 0]), (''to'', JArr [JInt 1, JInt 1, JInt 1]),
      (''faces'', JObj [(''north'', JNull)])]"


section \<open>Decimal strings and the termination of the stem loop\<close>

lemma digit_char_inj: "a < 10 \<Longrightarrow> b < 10 \<Longrightarrow> digit_char a = digit_char b \<Longrightarrow> a = b"
proof -
  have "distinct ''0123456789''" by simp
  moreover have "length ''0123456789'' = 10" by simp
  ultimately show "a < 10 \<Longrightarrow> b < 10 \<Longrightarrow> digit_char a = digit_char b \<Longrightarrow> a = b"
    unfolding digit_char_def by (metis nth_eq_iff_index_eq)
qed

lemma str_nat_nonempty: "str_nat n \<noteq> []"
  by (subst str_nat.simps) simp

lemma str_nat_nonempty': "[] \<noteq> str_nat n"
  using str_nat_nonempty[of n] by simp

lemma str_nat_small: "n < 10 \<Longrightarrow> str_nat n = [digit_char n]"
  by (subst str_nat.simps) simp

lemma str_nat_large: "\<not> n < 10 \<Longrightarrow> str_nat n = str_nat (n div 10) @ [digit_char (n mod 10)]"
  by (subst str_nat.simps) simp

lemma str_nat_inj: "str_nat n = str_nat m \<Longrightarrow> n = m"
proof (induction n arbitrary: m rule: str_nat.induct)
  case (1 n)
  show ?case
  proof (cases "n < 10")
    case True
    show ?thesis
    proof (cases "m < 10")
      case mt: True
      with True 1(2) show ?thesis by (simp add: str_nat_small digit_char_inj)
    next
      case False
      with True 1(2) show ?thesis by (simp add: str_nat_small str_nat_large str_nat_nonempty str_nat_nonempty')
    qed
  next
    case False
    show ?thesis
    proof (cases "m < 10")
      case True
      with False 1(2) show ?thesis by (simp add: str_nat_small str_nat_large str_nat_nonempty str_nat_nonempty')
    next
      case mf: False
      from False mf 1(2) have "str_nat (n div 10) = str_nat (m div 10)"
        and d: "digit_char (n mod 10) = digit_char (m mod 10)"
        by (simp_all add: str_nat_large)
      with 1(1)[OF False] have "n div 10 = m div 10" by blast
      moreover from d have "n mod 10 = m mod 10" by (intro digit_char_inj) simp_all
      ultimately show ?thesis by (metis div_mult_mod_eq)
    qed
  qed
qed

lemma suffixed_inj: "suffixed stem a = suffixed stem b \<Longrightarrow> a = b"
  by (simp add: suffixed_def str_nat_inj)

lemma finite_suffixes: "finite {k. suffixed stem k \<in> set used}"
proof -
  have "inj (suffixed stem)" by (rule injI) (rule suffixed_inj)
  then have "finite (suffixed stem -` set used)" by (intro finite_vimageI) simp_all
  then show ?thesis by (simp add: vimage_def)
qed

termination dedup_loop
proof (relation "measure (\<lambda>(used, stem, unique_stem, suffix_no).
          card {k. suffix_no \<le> k \<and> suffixed stem k \<in> set used}
          + (if unique_stem \<in> set used then 1 else 0))")
  show "wf (measure (\<lambda>(used, stem, unique_stem, suffix_no).
          card {k. suffix_no \<le> k \<and> suffixed stem k \<in> set used}
          + (if unique_stem \<in> set used then 1 else 0)))" by simp
next
  fix used :: "string list" and stem unique_stem :: string and suffix_no :: nat
  assume u: "unique_stem \<in> set used"
  let ?A = "\<lambda>s. {k. s \<le> k \<and> suffixed stem k \<in> set used}"
  have fin: "finite (?A suffix_no)"
    by (rule finite_subset[OF _ finite_suffixes[of stem used]]) auto
  have "card (?A (suffix_no + 1)) + (if suffixed stem suffix_no \<in> set used then 1 else 0)
        = card (?A suffix_no)"
  proof (cases "suffixed stem suffix_no \<in> set used")
    case True
    then have "?A suffix_no = insert suffix_no (?A (suffix_no + 1))" by (auto simp: le_Suc_eq)
    moreover have "suffix_no \<notin> ?A (suffix_no + 1)" by simp
    moreover have "finite (?A (suffix_no + 1))"
      by (rule finite_subset[OF _ finite_suffixes[of stem used]]) auto
    ultimately show ?thesis using True by simp
  next
    case False
    then have "\<And>k. suffix_no \<le> k \<Longrightarrow> suffixed stem k \<in> set used \<Longrightarrow> suffix_no + 1 \<le> k"
      by (metis Suc_eq_plus1 Suc_leI order_le_imp_less_or_eq)
    then have "?A suffix_no = ?A (suffix_no + 1)"
      by auto
    with False show ?thesis by simp
  qed
  with u show "((used, stem, suffixed stem suffix_no, suffix_no + 1), (used, stem, unique_stem, suffix_no))
        \<in> measure (\<lambda>(used, stem, unique_stem, suffix_no).
          card {k. suffix_no \<le> k \<and> suffixed stem k \<in> set used}
          + (if unique_stem \<in> set used then 1 else 0))"
    by simp
qed

declare dedup_loop.simps [simp del]

section \<open>The texture loop\<close>

lemma dedup_loop_fresh: "dedup_loop used stem unique_stem suffix_no \<notin> set used"
  by (induction used stem unique_stem suffix_no rule: dedup_loop.induct)
     (subst dedup_loop.simps, simp)

lemma dedup_loop_shape:
  "dedup_loop used stem unique_stem suffix_no = unique_stem \<and> unique_stem \<notin> set used \<or>
   unique_stem \<in> set used \<and>
   (\<exists>k\<ge>suffix_no. dedup_loop used stem unique_stem suffix_no = suffixed stem k \<and>
      (\<forall>j. suffix_no \<le> j \<and> j < k \<longrightarrow> suffixed stem j \<in> set used))"
proof (induction used stem unique_stem suffix_no rule: dedup_loop.induct)
  case (1 used stem unique_stem suffix_no)
  show ?case
  proof (cases "unique_stem \<in> set used")
    case False
    then show ?thesis by (subst dedup_loop.simps) simp
  next
    case True
    have eq: "dedup_loop used stem unique_stem suffix_no
        = dedup_loop used stem (suffixed stem suffix_no) (suffix_no + 1)"
      using True by (subst dedup_loop.simps) simp
    from 1[OF True] show ?thesis
    proof
      assume "dedup_loop used stem (suffixed stem suffix_no) (suffix_no + 1) = suffixed stem suffix_no
          \<and> suffixed stem suffix_no \<notin> set used"
      then show ?thesis using True eq by (intro disjI2 conjI exI[of _ suffix_no]) auto
    next
      assume "suffixed stem suffix_no \<in> set used \<and>
        (\<exists>k\<ge>suffix_no + 1. dedup_loop used stem (suffixed stem suffix_no) (suffix_no + 1) = suffixed stem k \<and>
           (\<forall>j. suffix_no + 1 \<le> j \<and> j < k \<longrightarrow> suffixed stem j \<in> set used))"
      then obtain k where k: "suffix_no + 1 \<le> k"
        "dedup_loop used stem (suffixed stem suffix_no) (suffix_no + 1) = suffixed stem k"
        "\<forall>j. suffix_no + 1 \<le> j \<and> j < k \<longrightarrow> suffixed stem j \<in> set used"
        and s: "suffixed stem suffix_no \<in> set used" by blast
      have "\<forall>j. suffix_no \<le> j \<and> j < k \<longrightarrow> suffixed stem j \<in> set used"
      proof (intro allI impI)
        fix j assume "suffix_no \<le> j \<and> j < k"
        then show "suffixed stem j \<in> set used"
          using k(3) s by (cases "j = suffix_no") auto
      qed
      with k True eq show ?thesis by (intro disjI2 conjI exI[of _ k]) auto
    qed
  qed
qed

lemma texture_loop_distinct:
  "texture_loop L fs dir N idx plans used_names raw = Inr ps \<Longrightarrow>
   distinct (map file_stem plans) \<Longrightarrow> set (map file_stem plans) \<subseteq> set used_names \<Longrightarrow>
   distinct (map file_stem ps)"
proof (induction L fs dir N idx plans used_names raw rule: texture_loop.induct)
  case (1 L fs dir N idx plans used_names)
  then show ?case by simp
next
  case (2 L fs dir N idx plans used_names texture rest)
  let ?u = "unique_stem_of used_names (candidate_stem L N texture idx)"
  have fresh: "?u \<notin> set used_names" by (simp add: unique_stem_of_def dedup_loop_fresh)
  from "2.prems"(1) obtain data where d: "decode_texture_source L fs texture dir idx = Inr data"
    by (auto simp: Let_def split: sum.splits)
  show ?case
    apply (rule "2.IH"[OF refl refl refl d])
    using "2.prems" d fresh by (auto simp: Let_def)
qed simp_all

lemma texture_loop_length_index:
  "texture_loop L fs dir N idx plans used_names raw = Inr ps \<Longrightarrow>
   ps = plans @ drop (length plans) ps \<and> length ps = length plans + length raw \<and>
   map index (drop (length plans) ps) = [idx ..< idx + length raw]"
proof (induction L fs dir N idx plans used_names raw arbitrary: ps rule: texture_loop.induct)
  case (1 L fs dir N idx plans used_names)
  then show ?case by simp
next
  case (2 L fs dir N idx plans used_names texture rest)
  from "2.prems"(1) obtain data where d: "decode_texture_source L fs texture dir idx = Inr data"
    by (auto simp: Let_def split: sum.splits)
  let ?u = "unique_stem_of used_names (candidate_stem L N texture idx)"
  let ?p = "\<lparr>index = idx, file_stem = ?u,
                  rel_namespace_path =
                    namespace N @ '':item/'' @ asset N @ ''/'' @ variant N @ ''/'' @ ?u,
                  png_bytes = data, mcmeta_json = texture_mcmeta L texture\<rparr>"
  from "2.prems" d have
    "texture_loop L fs dir N (idx + 1) (plans @ [?p]) (used_names @ [?u]) rest = Inr ps"
    by (simp add: Let_def)
  from "2.IH"[OF refl refl refl d this]
  have ih: "ps = (plans @ [?p]) @ drop (length (plans @ [?p])) ps"
     "length ps = length (plans @ [?p]) + length rest"
     "map index (drop (length (plans @ [?p])) ps) = [idx + 1..<idx + 1 + length rest]"
    by blast+
  have dr: "drop (length plans) ps = ?p # drop (Suc (length plans)) ps"
    by (subst ih(1)) (simp)
  show ?case
    using ih dr by (auto simp: upt_rec[of idx])
qed simp_all

lemma texture_loop_stems:
  "texture_loop L fs dir N idx plans used_names raw = Inr ps \<Longrightarrow>
   used_names = map file_stem plans \<Longrightarrow> idx = length plans \<Longrightarrow>
   length plans \<le> i \<Longrightarrow> i < length ps \<Longrightarrow>
   (\<exists>texture. raw ! (i - length plans) = JObj texture \<and>
      file_stem (ps ! i) =
        unique_stem_of (map file_stem (take i ps)) (candidate_stem L N texture i))"
proof (induction L fs dir N idx plans used_names raw arbitrary: ps rule: texture_loop.induct)
  case (1 L fs dir N idx plans used_names)
  then show ?case by simp
next
  case (2 L fs dir N idx plans used_names texture rest)
  from "2.prems"(1) obtain data where d: "decode_texture_source L fs texture dir idx = Inr data"
    by (auto simp: Let_def split: sum.splits)
  let ?u = "unique_stem_of used_names (candidate_stem L N texture idx)"
  let ?p = "\<lparr>index = idx, file_stem = ?u,
                  rel_namespace_path =
                    namespace N @ '':item/'' @ asset N @ ''/'' @ variant N @ ''/'' @ ?u,
                  png_bytes = data, mcmeta_json = texture_mcmeta L texture\<rparr>"
  from "2.prems" d have rec:
    "texture_loop L fs dir N (idx + 1) (plans @ [?p]) (used_names @ [?u]) rest = Inr ps"
    by (simp add: Let_def)
  from texture_loop_length_index[OF rec]
  have ps: "ps = (plans @ [?p]) @ drop (length (plans @ [?p])) ps" by blast
  show ?case
  proof (cases "i = length plans")
    case True
    have "ps ! i = ?p" using True by (subst ps) (simp add: nth_append)
    moreover have "take i ps = plans" using True by (subst ps) simp
    ultimately show ?thesis using True "2.prems"(2,3) by simp
  next
    case False
    with "2.prems"(4) have i: "length (plans @ [?p]) \<le> i" by simp
    have u: "used_names @ [?u] = map file_stem (plans @ [?p])" using "2.prems"(2) by simp
    have x: "idx + 1 = length (plans @ [?p])" using "2.prems"(3) by simp
    from "2.IH"[OF refl refl refl d rec u x i "2.prems"(5)]
    obtain t where "rest ! (i - length (plans @ [?p])) = JObj t"
      "file_stem (ps ! i) = unique_stem_of (map file_stem (take i ps)) (candidate_stem L N t i)"
      by blast
    moreover have "(JObj texture # rest) ! (i - length plans) = rest ! (i - length (plans @ [?p]))"
      using i by (simp add: nth_Cons')
    ultimately show ?thesis by simp
  qed
qed simp_all

lemma build_texture_plans_distinct:
  "build_texture_plans L fs bbmodel dir N = Inr plans \<Longrightarrow> distinct (map file_stem plans)"
  by (auto simp: build_texture_plans_def split: json.splits dest: texture_loop_distinct)

lemma build_texture_plans_stems:
  assumes "build_texture_plans L fs bbmodel dir N = Inr plans" "i < length plans"
  shows "\<exists>raw texture. dict_get bbmodel ''textures'' = JArr raw \<and> raw ! i = JObj texture \<and>
      file_stem (plans ! i) =
        unique_stem_of (map file_stem (take i plans)) (candidate_stem L N texture i)"
proof -
  from assms(1) obtain raw where raw: "dict_get bbmodel ''textures'' = JArr raw"
    and loop: "texture_loop L fs dir N 0 [] [] raw = Inr plans"
    by (auto simp: build_texture_plans_def split: json.splits)
  from texture_loop_stems[OF loop _ _ _ assms(2)] raw show ?thesis by simp
qed

lemma build_texture_plans_indices:
  assumes "build_texture_plans L fs bbmodel dir N = Inr plans"
  shows "\<exists>raw. dict_get bbmodel ''textures'' = JArr raw \<and> length plans = length raw \<and>
     map index plans = [0 ..< length raw]"
proof -
  from assms(1) obtain raw where raw: "dict_get bbmodel ''textures'' = JArr raw"
    and loop: "texture_loop L fs dir N 0 [] [] raw = Inr plans"
    by (auto simp: build_texture_plans_def split: json.splits)
  from texture_loop_length_index[OF loop] raw show ?thesis by simp
qed

lemma unique_stem_of_shape:
  "unique_stem_of used stem \<notin> set used
   \<and> (stem \<notin> set used \<longrightarrow> unique_stem_of used stem = stem)
   \<and> (stem \<in> set used \<longrightarrow>
        (\<exists>k\<ge>2. unique_stem_of used stem = stem @ ''_'' @ str_nat k \<and>
           (\<forall>j. 2 \<le> j \<and> j < k \<longrightarrow> stem @ ''_'' @ str_nat j \<in> set used)))"
  using dedup_loop_shape[of used stem stem 2] dedup_loop_fresh[of used stem stem 2]
  unfolding unique_stem_of_def suffixed_def by auto

lemma candidate_stem_tex:
  assumes "path_stem L ''tex'' = ''tex''" "\<not> prefix_textures N" "dict_get t ''name'' = JStr ''tex''"
  shows "candidate_stem L N t i = ''tex''"
  using assms by (simp add: candidate_stem_def Let_def to_pack_name_def pack_char_def lower_char_def)

lemma two_tex:
  assumes st: "path_stem L ''tex'' = ''tex''" and np: "\<not> prefix_textures N"
    and raw: "dict_get bbmodel ''textures'' = JArr [JObj t1, JObj t2]"
    and n1: "dict_get t1 ''name'' = JStr ''tex''" and n2: "dict_get t2 ''name'' = JStr ''tex''"
    and ok: "build_texture_plans L fs bbmodel dir N = Inr plans"
  shows "map file_stem plans = [''tex'', ''tex_2'']"
proof -
  from build_texture_plans_indices[OF ok] raw have len: "length plans = 2" by simp
  then obtain p1 p2 where ps: "plans = [p1, p2]"
    by (metis (no_types, opaque_lifting) One_nat_def Suc_1 length_0_conv length_Suc_conv)
  from build_texture_plans_stems[OF ok, of 0] raw ps st np n1
  have 1: "file_stem p1 = ''tex''"
    by (simp add: candidate_stem_tex unique_stem_of_def dedup_loop.simps)
  from build_texture_plans_stems[OF ok, of 1] raw ps st np n2 1
  have 2: "file_stem p2 = ''tex_2''"
    by (simp add: candidate_stem_tex unique_stem_of_def dedup_loop.simps suffixed_def
        str_nat.simps digit_char_def)
  from 1 2 ps show ?thesis by simp
qed

text \<open>
  Claim C3. The file stems of one run are pairwise distinct. The stem of texture \<open>i\<close> is the
  result of the loop on its candidate stem and the stems of the textures before it; that
  result is never a used stem, it is the candidate when the candidate is unused, and
  otherwise it is the candidate followed by \<open>_k\<close> for the least \<open>k\<close> from 2 on that gives an unused
  stem. Two textures both named \<^verbatim>\<open>tex\<close> (without the prefix option, and where the stem of the
  path \<^verbatim>\<open>tex\<close> is \<^verbatim>\<open>tex\<close>) get the stems \<^verbatim>\<open>tex\<close> and \<^verbatim>\<open>tex_2\<close>.
\<close>

theorem texture_stems_unique:
  "(build_texture_plans L fs bbmodel dir N = Inr plans \<longrightarrow>
      distinct (map file_stem plans) \<and>
      (\<forall>i<length plans. \<exists>raw texture.
          dict_get bbmodel ''textures'' = JArr raw \<and> raw ! i = JObj texture \<and>
          file_stem (plans ! i) =
            unique_stem_of (map file_stem (take i plans)) (candidate_stem L N texture i)))
   \<and> unique_stem_of used stem \<notin> set used
   \<and> (stem \<notin> set used \<longrightarrow> unique_stem_of used stem = stem)
   \<and> (stem \<in> set used \<longrightarrow>
        (\<exists>k\<ge>2. unique_stem_of used stem = stem @ ''_'' @ str_nat k \<and>
           (\<forall>j. 2 \<le> j \<and> j < k \<longrightarrow> stem @ ''_'' @ str_nat j \<in> set used)))
   \<and> (path_stem L ''tex'' = ''tex'' \<and> \<not> prefix_textures N \<and>
      dict_get bbmodel ''textures'' = JArr [JObj t1, JObj t2] \<and>
      dict_get t1 ''name'' = JStr ''tex'' \<and> dict_get t2 ''name'' = JStr ''tex'' \<and>
      build_texture_plans L fs bbmodel dir N = Inr plans \<longrightarrow>
      map file_stem plans = [''tex'', ''tex_2''])"
  using build_texture_plans_distinct[of L fs bbmodel dir N plans]
    build_texture_plans_stems[of L fs bbmodel dir N plans]
    unique_stem_of_shape[of used stem]
    two_tex[of L N bbmodel t1 t2 fs dir plans]
  by blast

lemmas texture_run_defs = Let_def build_texture_plans_def dict_get_def test_lib_def candidate_stem_def
     unique_stem_of_def dedup_loop.simps suffixed_def str_nat.simps digit_char_def decode_texture_source_def str_find_def
      to_pack_name_def pack_char_def lower_char_def texture_mcmeta_def is_animated_def texture_default_name_def

theorem texture_stems_unique_witness:
  "build_texture_plans test_lib Map.empty two_tex_doc ''/models'' test_names =
     Inr [\<lparr>index = 0, file_stem = ''tex'',
            rel_namespace_path = ''bloodstone:item/gem/default/tex'',
            png_bytes = ''AAAA'', mcmeta_json = None\<rparr>,
          \<lparr>index = 1, file_stem = ''tex_2'',
            rel_namespace_path = ''bloodstone:item/gem/default/tex_2'',
            png_bytes = ''BBBB'', mcmeta_json = None\<rparr>]
   \<and> distinct [''tex'', ''tex_2'']
   \<and> unique_stem_of [''tex'', ''tex_2''] ''tex'' = ''tex_3''
   \<and> unique_stem_of [''tex''] ''other'' = ''other''"
proof -
  have run: "build_texture_plans test_lib Map.empty two_tex_doc ''/models'' test_names =
     Inr [\<lparr>index = 0, file_stem = ''tex'',
            rel_namespace_path = ''bloodstone:item/gem/default/tex'',
            png_bytes = ''AAAA'', mcmeta_json = None\<rparr>,
          \<lparr>index = 1, file_stem = ''tex_2'',
            rel_namespace_path = ''bloodstone:item/gem/default/tex_2'',
            png_bytes = ''BBBB'', mcmeta_json = None\<rparr>]"
    by (simp add: two_tex_doc_def test_names_def texture_run_defs)
  have st: "path_stem test_lib ''tex'' = ''tex''" by (simp add: test_lib_def)
  have np: "\<not> prefix_textures test_names" by (simp add: test_names_def)
  have raw: "dict_get two_tex_doc ''textures'' =
      JArr [JObj [(''name'', JStr ''tex''), (''source'', JStr ''data:image/png;base64,AAAA'')],
            JObj [(''name'', JStr ''tex''), (''source'', JStr ''data:image/png;base64,BBBB'')]]"
    by (simp add: two_tex_doc_def dict_get_def)
  have n1: "dict_get [(''name'', JStr ''tex''), (''source'', JStr ''data:image/png;base64,AAAA'')] ''name'' = JStr ''tex''"
    and n2: "dict_get [(''name'', JStr ''tex''), (''source'', JStr ''data:image/png;base64,BBBB'')] ''name'' = JStr ''tex''"
    by (simp_all add: dict_get_def)
  have u3: "unique_stem_of [''tex'', ''tex_2''] ''tex'' = ''tex_3''"
    and u0: "unique_stem_of [''tex''] ''other'' = ''other''"
    by (simp_all add: unique_stem_of_def dedup_loop.simps suffixed_def str_nat.simps digit_char_def)
  from texture_stems_unique[of test_lib Map.empty two_tex_doc "''/models''" test_names _
      "[''tex'', ''tex_2'']" "''tex''", OF ] run st np raw n1 n2
  have "distinct [''tex'', ''tex_2'']" by simp
  with run u3 u0 show ?thesis by simp
qed

section \<open>Animation classification\<close>




section \<open>Numeric coercion never fails\<close>

lemma dict_get_resolution:
  "dict_get ((''resolution'', x) # doc) ''elements'' = dict_get doc ''elements''"
  "dict_get ((''resolution'', x) # doc) ''front_gui_light'' = dict_get doc ''front_gui_light''"
  "dict_get ((''resolution'', x) # doc) ''display'' = dict_get doc ''display''"
  "dict_get ((''resolution'', x) # doc) ''textures'' = dict_get doc ''textures''"
  by (simp_all add: dict_get_def)

lemma build_model_json_resolution:
  "build_model_json L ((''resolution'', x) # doc) = build_model_json L doc"
  unfolding build_model_json_def dict_get_resolution by (rule refl)

lemma build_texture_plans_resolution:
  "build_texture_plans L fs ((''resolution'', x) # doc) = build_texture_plans L fs doc"
  unfolding build_texture_plans_def dict_get_resolution by (rule refl)

text \<open>
  Claim C10. \<^verbatim>\<open>read_positive_int\<close> has no failing branch. A bool, a number that is not positive,
  a float that is not an integer, a string that \<^verbatim>\<open>int\<close> rejects (or reads as a number that is
  not positive), \<^verbatim>\<open>None\<close>, a list or a dict gives the default that the caller passes. So such
  a value in a texture's \<^verbatim>\<open>width\<close>, \<^verbatim>\<open>height\<close>, \<^verbatim>\<open>uv_width\<close>, \<^verbatim>\<open>uv_height\<close> or \<^verbatim>\<open>frame_time\<close>, or in the
  \<^verbatim>\<open>width\<close> or \<^verbatim>\<open>height\<close> of the resolution, behaves as \<^verbatim>\<open>null\<close> does: the run is the same, with
  the defaults 0 (texture dimensions), 1 (frame time) and 16 (resolution) that
  \<open>texture_mcmeta\<close> and \<open>main\<close> pass.
\<close>

theorem coercion_never_fails:
  assumes bad:
    "(\<exists>b. v = JBool b) \<or> (\<exists>i\<le>0. v = JInt i) \<or> (\<exists>r. v = JFloat r \<and> (r \<le> 0 \<or> \<not> is_integer r))
     \<or> (\<exists>s. v = JStr s \<and> (int_of_str L s = None \<or> (\<exists>n\<le>0. int_of_str L s = Some n)))
     \<or> v = JNull \<or> (\<exists>xs. v = JArr xs) \<or> (\<exists>d. v = JObj d)"
  shows "read_positive_int L v dflt = dflt
    \<and> (k \<in> set [''width'', ''height'', ''uv_width'', ''uv_height'', ''frame_time''] \<longrightarrow>
         texture_mcmeta L ((k, v) # texture) = texture_mcmeta L ((k, JNull) # texture))
    \<and> (k \<in> set [''width'', ''height''] \<longrightarrow>
         main L A (JObj ((''resolution'', JObj ((k, v) # resolution)) # doc)) fs =
         main L A (JObj ((''resolution'', JObj ((k, JNull) # resolution)) # doc)) fs)
    \<and> read_positive_int L JNull 16 = 16 \<and> read_positive_int L JNull 0 = 0
    \<and> read_positive_int L JNull 1 = 1"
proof -
  have rp: "read_positive_int L v d = d" for d
    using bad by (auto simp: Let_def)
  have tm: "texture_mcmeta L ((k, v) # texture) = texture_mcmeta L ((k, JNull) # texture)"
    if "k \<in> set [''width'', ''height'', ''uv_width'', ''uv_height'', ''frame_time'']"
    using that rp by (auto simp: texture_mcmeta_def dict_get_def)
  have mn: "main L A (JObj ((''resolution'', JObj ((k, v) # resolution)) # doc)) fs =
         main L A (JObj ((''resolution'', JObj ((k, JNull) # resolution)) # doc)) fs"
    if k: "k \<in> set [''width'', ''height'']"
  proof -
    have w: "read_positive_int L (dict_get ((k, v) # resolution) f) 16
           = read_positive_int L (dict_get ((k, JNull) # resolution) f) 16" for f
      by (simp add: dict_get_def rp)
    show ?thesis
      unfolding main_def resolution_field_def
      by (simp add: w build_model_json_resolution build_texture_plans_resolution
          cong: sum.case_cong)
  qed
  from rp tm mn show ?thesis by simp
qed

theorem coercion_never_fails_witness:
  "read_positive_int test_lib (JBool True) 16 = 16
   \<and> read_positive_int test_lib (JInt (- 4)) 0 = 0
   \<and> read_positive_int test_lib (JFloat (5 / 2)) 0 = 0
   \<and> read_positive_int test_lib (JStr ''abc'') 1 = 1"
proof -
  have f: "\<not> is_integer (5 / 2)" by (simp add: is_integer_def)
  have s: "int_of_str test_lib ''abc'' = None" by (simp add: test_lib_def digits_value_def)
  show ?thesis
    using coercion_never_fails[of "JBool True" test_lib 16]
      coercion_never_fails[of "JInt (- 4)" test_lib 0]
      coercion_never_fails[of "JFloat (5 / 2)" test_lib 0]
      coercion_never_fails[of "JStr ''abc''" test_lib 1] f s
    by simp
qed

section \<open>Texture payloads: the two errors\<close>



section \<open>Rotation given as a vector\<close>

lemma map_of_dict_set: "map_of (dict_set d k v) k' = (if k' = k then Some v else map_of d k')"
  by (induction d k v rule: dict_set.induct) auto

lemma dict_set_nonempty: "dict_set d k v \<noteq> []"
  by (cases d) (auto split: if_splits)



section \<open>UV rescaling\<close>

lemma str_nat_0: "str_nat 0 = ''0''"
  by (simp add: str_nat.simps digit_char_def)

lemma cube_faces:
  assumes "0 \<in> set (map index texture_plans)"
  shows "faces_loop L texture_plans 16 16 ''cube''
           [(''north'', cube_face), (''east'', cube_face), (''south'', cube_face),
            (''west'', cube_face), (''up'', cube_face), (''down'', cube_face)] [] VALID_FACES
         = Inr [(''north'', cube_face_out), (''east'', cube_face_out),
                             (''south'', cube_face_out), (''west'', cube_face_out),
                             (''up'', cube_face_out), (''down'', cube_face_out)]"
proof -
  have lk: "in_texture_lookup (JInt 0) texture_plans"
    using assms by (auto simp: in_texture_lookup_def)
  have f: "convert_face L texture_plans 16 16 ''cube'' face_name
        [(''uv'', JArr [JInt 0, JInt 0, JInt 16, JInt 16]), (''texture'', JInt 0)] = Inr cube_face_out"
    for face_name
    using lk by (simp add: convert_face_def dict_get_def Let_def cube_face_out_def str_int_def str_nat_0)
  show ?thesis
    by (simp add: VALID_FACES_def dict_get_def cube_face_def f)
qed

lemma cube_element:
  assumes "0 \<in> set (map index texture_plans)"
  shows "convert_element L texture_plans 16 16 cube_elem idx = Inr (Some cube_out)"
  by (simp add: convert_element_def element_name_def cube_elem_def dict_get_def Let_def
      cube_faces[OF assms] cube_out_def)

lemma cube_model:
  assumes "0 \<in> set (map index texture_plans)"
  shows "build_model_json L cube_doc texture_plans 16 16
          = Inr (JObj [(''textures'',
                         JObj (map (\<lambda>(k, v). (k, JStr v)) (texture_object texture_plans))),
                       (''elements'', JArr [cube_out])])"
proof -
  have vis: "map_of cube_elem ''visibility'' = None" by (simp add: cube_elem_def)
  show ?thesis
    by (simp add: build_model_json_def cube_doc_def dict_get_def cube_element[OF assms] vis
        Let_def)
qed




section \<open>A bool as a texture reference\<close>

lemma int_image_iff: "(i \<in> int ` A) = (0 \<le> i \<and> nat i \<in> A)"
proof
  assume "i \<in> int ` A"
  then obtain n where "n \<in> A" "i = int n" by blast
  then show "0 \<le> i \<and> nat i \<in> A" by simp
next
  assume a: "0 \<le> i \<and> nat i \<in> A"
  then have "int (nat i) \<in> int ` A" by (intro imageI) simp
  moreover from a have "int (nat i) = i" by simp
  ultimately show "i \<in> int ` A" by simp
qed

lemma in_texture_lookup_iff:
  "in_texture_lookup v texture_plans =
     (case int_value v of
        Some i \<Rightarrow> 0 \<le> i \<and> nat i \<in> set (map index texture_plans)
      | None \<Rightarrow> False)"
proof -
  have "set (map (\<lambda>plan. int (index plan)) texture_plans) = int ` set (map index texture_plans)"
    by (simp add: image_image)
  then show ?thesis
    unfolding in_texture_lookup_def by (simp add: int_image_iff split: option.splits)
qed

text \<open>
  Claim C9. A face whose texture reference is the JSON value \<^verbatim>\<open>true\<close> or \<^verbatim>\<open>false\<close> is not
  rejected: \<^verbatim>\<open>resolve_texture_index\<close> returns the bool itself. It is looked up as the index 1
  or 0, and the face fails with the missing-texture-index error when that index was not
  resolved. When it was, the face is emitted, and its texture is the formatted bool,
  \<^verbatim>\<open>#True\<close> or \<^verbatim>\<open>#False\<close>, which is no key of the texture table; the claim expects \<^verbatim>\<open>#1\<close> or
  \<^verbatim>\<open>#0\<close>.
\<close>

theorem bool_texture_ref:
  "resolve_texture_index L (JBool b) elem_name face_name = Inr (JBool b)
   \<and> (dict_get raw_face ''texture'' = JBool b \<and>
      (if b then 1 else 0) \<notin> set (map index texture_plans) \<longrightarrow>
        convert_face L texture_plans w h elem_name face_name raw_face
          = Inl (MissingTextureIndex elem_name face_name (if b then ''True'' else ''False'')))
   \<and> (dict_get raw_face ''texture'' = JBool b \<and>
      (if b then 1 else 0) \<in> set (map index texture_plans) \<and>
      ensure_list4 L (dict_get raw_face ''uv'') ''face uv'' elem_name = Inr raw_uv \<longrightarrow>
        (\<exists>face_obj. convert_face L texture_plans w h elem_name face_name raw_face
                       = Inr (JObj face_obj)
           \<and> map_of face_obj ''texture'' = Some (JStr (if b then ''#True'' else ''#False''))))"
proof (intro conjI impI)
  show "resolve_texture_index L (JBool b) elem_name face_name = Inr (JBool b)" by simp
next
  assume a: "dict_get raw_face ''texture'' = JBool b \<and>
      (if b then 1 else 0) \<notin> set (map index texture_plans)"
  then have "\<not> in_texture_lookup (JBool b) texture_plans"
    by (cases b) (simp_all add: in_texture_lookup_iff)
  with a show "convert_face L texture_plans w h elem_name face_name raw_face
          = Inl (MissingTextureIndex elem_name face_name (if b then ''True'' else ''False''))"
    by (simp add: convert_face_def)
next
  assume a: "dict_get raw_face ''texture'' = JBool b \<and>
      (if b then 1 else 0) \<in> set (map index texture_plans) \<and>
      ensure_list4 L (dict_get raw_face ''uv'') ''face uv'' elem_name = Inr raw_uv"
  then have lk: "in_texture_lookup (JBool b) texture_plans"
    by (cases b) (simp_all add: in_texture_lookup_iff)
  from a obtain u0 v0 u1 v1 where uv: "raw_uv = [u0, v0, u1, v1]"
    by (cases "(L, dict_get raw_face ''uv'', ''face uv'', elem_name)" rule: ensure_list4.cases)
       (auto split: option.splits)
  show "\<exists>face_obj. convert_face L texture_plans w h elem_name face_name raw_face
                       = Inr (JObj face_obj)
           \<and> map_of face_obj ''texture'' = Some (JStr (if b then ''#True'' else ''#False''))"
  proof -
    have cf: "convert_face_uv raw_uv w h \<noteq> None" using uv by (simp add: Let_def)
    then obtain uvs where uvs: "convert_face_uv raw_uv w h = Some uvs" by blast
    show ?thesis
      unfolding convert_face_def
      using a lk uvs
      by (simp add: Let_def map_of_dict_set split: option.splits)
  qed
qed

theorem bool_texture_ref_witness:
  "convert_face test_lib test_plans 16 16 ''cube'' ''north''
      [(''uv'', JArr [JInt 0, JInt 0, JInt 16, JInt 16]), (''texture'', JBool True)]
    = Inr (JObj [(''uv'', JArr [JFloat 0, JFloat 0, JFloat 16, JFloat 16]),
                 (''texture'', JStr ''#True'')])
   \<and> map fst (texture_object test_plans) = [''0'', ''1'', ''particle'']
   \<and> convert_face test_lib (take 1 test_plans) 16 16 ''cube'' ''north''
      [(''uv'', JArr [JInt 0, JInt 0, JInt 16, JInt 16]), (''texture'', JBool True)]
    = Inl (MissingTextureIndex ''cube'' ''north'' ''True'')"
proof -
  have t: "map fst (texture_object test_plans) = [''0'', ''1'', ''particle'']"
    by (simp add: texture_object_def test_plans_def str_nat.simps digit_char_def)
  have r: "convert_face test_lib test_plans 16 16 ''cube'' ''north''
      [(''uv'', JArr [JInt 0, JInt 0, JInt 16, JInt 16]), (''texture'', JBool True)]
    = Inr (JObj [(''uv'', JArr [JFloat 0, JFloat 0, JFloat 16, JFloat 16]),
                 (''texture'', JStr ''#True'')])"
    by (simp add: convert_face_def dict_get_def in_texture_lookup_def test_plans_def Let_def)
  show ?thesis
    using bool_texture_ref[where L = test_lib and b = True and texture_plans = "take 1 test_plans"
        and raw_face = "[(''uv'', JArr [JInt 0, JInt 0, JInt 16, JInt 16]), (''texture'', JBool True)]"
        and w = 16 and h = 16 and elem_name = "''cube''" and face_name = "''north''"] t r
    by (simp add: dict_get_def test_plans_def)
qed

section \<open>The destination check\<close>

lemma sublist_in_right: "sublist p b \<Longrightarrow> sublist p (a @ b)"
proof -
  assume "sublist p b"
  then obtain ps ss where "b = ps @ p @ ss" by (auto simp: sublist_def)
  then have "a @ b = (a @ ps) @ p @ ss" by simp
  then show ?thesis unfolding sublist_def by blast
qed

lemma sublist_in_left: "sublist p a \<Longrightarrow> sublist p (a @ b)"
proof -
  assume "sublist p a"
  then obtain ps ss where "a = ps @ p @ ss" by (auto simp: sublist_def)
  then have "a @ b = ps @ p @ (ss @ b)" by simp
  then show ?thesis unfolding sublist_def by blast
qed

lemma sublist_str_join: "p \<in> set xs \<Longrightarrow> sublist p (str_join sep xs)"
proof (induction sep xs rule: str_join.induct)
  case (1 sep)
  then show ?case by simp
next
  case (2 sep x)
  then show ?case by simp
next
  case (3 sep x y ys)
  show ?case
  proof (cases "p = x")
    case True
    then show ?thesis by (simp add: sublist_append_rightI)
  next
    case False
    with 3 have "sublist p (str_join sep (y # ys))" by simp
    then have "sublist p (x @ sep @ str_join sep (y # ys))"
      by (intro sublist_in_right)
    then show ?thesis by simp
  qed
qed

lemma collision_message_lists:
  assumes "p \<in> set (take 10 collisions)"
  shows "sublist (''- '' @ p) (collision_message collisions)"
proof -
  have "sublist (''- '' @ p) (str_join newline (map (\<lambda>p. ''- '' @ p) (take 10 collisions)))"
    using assms by (intro sublist_str_join) auto
  then show ?thesis
    unfolding collision_message_def Let_def
    by (intro sublist_in_right sublist_in_left)
qed

lemma main_failure_writes_nothing: "main L A bbmodel fs = (Inl e, fs') \<Longrightarrow> fs' = fs"
  by (auto simp: main_def Let_def split: sum.splits json.splits if_splits)

lemma ensure_writable_ok:
  "(ensure_writable fs paths False = Inr ()) = (\<forall>p\<in>set paths. \<not> path_exists fs p)"
  by (auto simp: ensure_writable_def Let_def filter_empty_conv)

lemma ensure_writable_refuses:
  assumes "\<exists>p\<in>set paths. path_exists fs p"
  shows "ensure_writable fs paths False
    = Inl (DestinationExists (collision_message (filter (path_exists fs) paths)))"
  using assms by (auto simp: ensure_writable_def Let_def filter_empty_conv)

lemma main_success_checked:
  assumes "main L A bbmodel fs = (Inr (), fs')" "\<not> force A"
  shows "\<exists>doc texture_plans. bbmodel = JObj doc \<and>
     build_texture_plans L fs doc (bbmodel_dir A) (names A) = Inr texture_plans \<and>
     (\<forall>p\<in>set (planned_paths L A texture_plans). \<not> path_exists fs p)"
  using assms
  by (auto simp: main_def Let_def ensure_writable_ok[symmetric]
      split: sum.splits json.splits if_splits)

lemma main_refuses:
  assumes "resolution_field (JObj doc) ''width'' = Inr raw_width"
    "resolution_field (JObj doc) ''height'' = Inr raw_height"
    "build_texture_plans L fs doc (bbmodel_dir A) (names A) = Inr texture_plans"
    "build_model_json L doc texture_plans (read_positive_int L raw_width 16)
       (read_positive_int L raw_height 16) = Inr model_json"
    "\<not> force A" "\<exists>p\<in>set (planned_paths L A texture_plans). path_exists fs p"
  shows "main L A (JObj doc) fs =
     (Inl (DestinationExists
        (collision_message (filter (path_exists fs) (planned_paths L A texture_plans)))), fs)"
  using assms(1-5) ensure_writable_refuses[OF assms(6)]
  by (simp add: main_def Let_def)

text \<open>
  Claim C7, as the script has it. With the overwrite flag the check passes. Without it, the
  check passes exactly when no planned path exists; otherwise it fails with the message
  that lists the first ten colliding paths, one on a line, in the order in which they are
  planned, followed by the number of the other ones when there are more than ten. The
  planned paths are the model file, one file for each texture and one metadata file for
  each animated texture. A run that fails leaves the file system as it was, a run that
  succeeds without the overwrite flag found none of its planned paths, and a run whose
  document converts is refused with that message when a planned path exists.
\<close>

theorem destination_check_before_writes:
  "ensure_writable fs paths True = Inr ()
   \<and> ((ensure_writable fs paths False = Inr ()) = (\<forall>p\<in>set paths. \<not> path_exists fs p))
   \<and> ((\<exists>p\<in>set paths. path_exists fs p) \<longrightarrow>
        (let collisions = filter (path_exists fs) paths
         in ensure_writable fs paths False = Inl (DestinationExists (collision_message collisions))
            \<and> collision_message collisions =
                ''Destination files already exist. Use --force to overwrite.'' @ newline @
                str_join newline (map (\<lambda>p. ''- '' @ p) (take 10 collisions)) @
                (if length collisions \<le> 10 then []
                 else newline @ ''... and '' @ str_nat (length collisions - 10) @ '' more'')
            \<and> (\<forall>p\<in>set (take 10 collisions).
                  sublist (''- '' @ p) (collision_message collisions))))
   \<and> length (planned_paths L A texture_plans) =
        1 + length texture_plans + length (filter (\<lambda>t. mcmeta_json t \<noteq> None) texture_plans)
   \<and> (main L A bbmodel fs = (Inl e, fs') \<longrightarrow> fs' = fs)
   \<and> (main L A bbmodel fs = (Inr (), fs') \<and> \<not> force A \<longrightarrow>
        (\<exists>doc plans. bbmodel = JObj doc \<and>
           build_texture_plans L fs doc (bbmodel_dir A) (names A) = Inr plans \<and>
           (\<forall>p\<in>set (planned_paths L A plans). \<not> path_exists fs p)))
   \<and> (resolution_field (JObj doc) ''width'' = Inr raw_width \<and>
      resolution_field (JObj doc) ''height'' = Inr raw_height \<and>
      build_texture_plans L fs doc (bbmodel_dir A) (names A) = Inr texture_plans \<and>
      build_model_json L doc texture_plans (read_positive_int L raw_width 16)
        (read_positive_int L raw_height 16) = Inr model_json \<and>
      \<not> force A \<and> (\<exists>p\<in>set (planned_paths L A texture_plans). path_exists fs p) \<longrightarrow>
        main L A (JObj doc) fs =
          (Inl (DestinationExists
             (collision_message (filter (path_exists fs) (planned_paths L A texture_plans)))),
           fs))"
proof (intro conjI impI)
  show "ensure_writable fs paths True = Inr ()" by (simp add: ensure_writable_def)
  show "(ensure_writable fs paths False = Inr ()) = (\<forall>p\<in>set paths. \<not> path_exists fs p)"
    by (rule ensure_writable_ok)
  show "length (planned_paths L A texture_plans) =
        1 + length texture_plans + length (filter (\<lambda>t. mcmeta_json t \<noteq> None) texture_plans)"
    by (simp add: planned_paths_def texture_paths_def mcmeta_paths_def)
next
  assume "\<exists>p\<in>set paths. path_exists fs p"
  then show "let collisions = filter (path_exists fs) paths
         in ensure_writable fs paths False = Inl (DestinationExists (collision_message collisions))
            \<and> collision_message collisions =
                ''Destination files already exist. Use --force to overwrite.'' @ newline @
                str_join newline (map (\<lambda>p. ''- '' @ p) (take 10 collisions)) @
                (if length collisions \<le> 10 then []
                 else newline @ ''... and '' @ str_nat (length collisions - 10) @ '' more'')
            \<and> (\<forall>p\<in>set (take 10 collisions).
                  sublist (''- '' @ p) (collision_message collisions))"
    unfolding Let_def
  proof (intro conjI ballI)
    show "collision_message (filter (path_exists fs) paths) =
        ''Destination files already exist. Use --force to overwrite.'' @ newline @
        str_join newline (map (\<lambda>p. ''- '' @ p) (take 10 (filter (path_exists fs) paths))) @
        (if length (filter (path_exists fs) paths) \<le> 10 then []
         else newline @ ''... and '' @ str_nat (length (filter (path_exists fs) paths) - 10) @
              '' more'')"
      unfolding collision_message_def Let_def by (rule refl)
  next
    fix p assume "p \<in> set (take 10 (filter (path_exists fs) paths))"
    then show "sublist (''- '' @ p) (collision_message (filter (path_exists fs) paths))"
      by (rule collision_message_lists)
  qed (simp add: ensure_writable_refuses)
next
  assume "main L A bbmodel fs = (Inl e, fs')"
  then show "fs' = fs" by (rule main_failure_writes_nothing)
next
  assume "main L A bbmodel fs = (Inr (), fs') \<and> \<not> force A"
  then show "\<exists>doc plans. bbmodel = JObj doc \<and>
           build_texture_plans L fs doc (bbmodel_dir A) (names A) = Inr plans \<and>
           (\<forall>p\<in>set (planned_paths L A plans). \<not> path_exists fs p)"
    using main_success_checked by blast
next
  assume "resolution_field (JObj doc) ''width'' = Inr raw_width \<and>
      resolution_field (JObj doc) ''height'' = Inr raw_height \<and>
      build_texture_plans L fs doc (bbmodel_dir A) (names A) = Inr texture_plans \<and>
      build_model_json L doc texture_plans (read_positive_int L raw_width 16)
        (read_positive_int L raw_height 16) = Inr model_json \<and>
      \<not> force A \<and> (\<exists>p\<in>set (planned_paths L A texture_plans). path_exists fs p)"
  then show "main L A (JObj doc) fs =
          (Inl (DestinationExists
             (collision_message (filter (path_exists fs) (planned_paths L A texture_plans)))),
           fs)"
    using main_refuses by blast
qed

text \<open>
  The listing is not complete when more than ten planned paths exist: of eleven colliding
  paths the message names ten and counts one more, and the eleventh path is not in it.
\<close>

theorem collision_listing_counterexample:
  "ensure_writable eleven_fs eleven_paths False
     = Inl (DestinationExists (collision_message eleven_paths))
   \<and> ''/x/K'' \<in> set eleven_paths \<and> path_exists eleven_fs ''/x/K''
   \<and> collision_message eleven_paths =
       ''Destination files already exist. Use --force to overwrite.'' @ newline @
       ''- /x/A'' @ newline @ ''- /x/B'' @ newline @ ''- /x/C'' @ newline @ ''- /x/D'' @ newline @
       ''- /x/E'' @ newline @ ''- /x/F'' @ newline @ ''- /x/G'' @ newline @ ''- /x/H'' @ newline @
       ''- /x/I'' @ newline @ ''- /x/J'' @ newline @ ''... and 1 more''
   \<and> \<not> sublist ''/x/K'' (collision_message eleven_paths)"
proof -
  have f: "filter (path_exists eleven_fs) eleven_paths = eleven_paths"
    by (simp add: eleven_fs_def path_exists_def)
  have 1: "ensure_writable eleven_fs eleven_paths False
     = Inl (DestinationExists (collision_message eleven_paths))"
    unfolding ensure_writable_def Let_def f by (simp add: eleven_paths_def)
  have 2: "''/x/K'' \<in> set eleven_paths" by (simp add: eleven_paths_def)
  have 3: "path_exists eleven_fs ''/x/K''" by (simp add: eleven_fs_def path_exists_def 2)
  have 4: "collision_message eleven_paths =
       ''Destination files already exist. Use --force to overwrite.'' @ newline @
       ''- /x/A'' @ newline @ ''- /x/B'' @ newline @ ''- /x/C'' @ newline @ ''- /x/D'' @ newline @
       ''- /x/E'' @ newline @ ''- /x/F'' @ newline @ ''- /x/G'' @ newline @ ''- /x/H'' @ newline @
       ''- /x/I'' @ newline @ ''- /x/J'' @ newline @ ''... and 1 more''"
    by (simp add: collision_message_def eleven_paths_def Let_def newline_def str_nat.simps
        digit_char_def)
  have 5: "\<not> sublist ''/x/K'' (collision_message eleven_paths)"
    by code_simp
  from 1 2 3 4 5 show ?thesis by blast
qed

lemma cube_texture_plans:
  "build_texture_plans test_lib fs cube_doc ''/models'' test_names = Inr (take 1 test_plans)"
  by (simp add: cube_doc_def test_names_def test_plans_def texture_run_defs)

theorem destination_check_before_writes_witness:
  "main test_lib test_args (JObj cube_doc)
      [''/assets/bloodstone/models/item/gem/default/gem.json'' \<mapsto> File ''old'']
     = (Inl (DestinationExists
          (''Destination files already exist. Use --force to overwrite.'' @ newline @
           ''- /assets/bloodstone/models/item/gem/default/gem.json'')),
        [''/assets/bloodstone/models/item/gem/default/gem.json'' \<mapsto> File ''old''])
   \<and> ensure_writable Map.empty [''/a'', ''/b''] False = Inr ()
   \<and> ensure_writable eleven_fs [''/x/A''] True = Inr ()"
proof -
  let ?fs = "[''/assets/bloodstone/models/item/gem/default/gem.json'' \<mapsto> File ''old'']"
  have w: "resolution_field (JObj cube_doc) ''width'' = Inr (JInt 16)"
    and h: "resolution_field (JObj cube_doc) ''height'' = Inr (JInt 16)"
    by (simp_all add: resolution_field_def cube_doc_def dict_get_def)
  have t: "build_texture_plans test_lib ?fs cube_doc (bbmodel_dir test_args) (names test_args)
      = Inr (take 1 test_plans)"
    by (simp add: test_args_def cube_texture_plans)
  have i: "0 \<in> set (map index (take 1 test_plans))" by (simp add: test_plans_def)
  have m: "build_model_json test_lib cube_doc (take 1 test_plans)
       (read_positive_int test_lib (JInt 16) 16) (read_positive_int test_lib (JInt 16) 16)
      = Inr (JObj [(''textures'',
                     JObj (map (\<lambda>(k, v). (k, JStr v)) (texture_object (take 1 test_plans)))),
                   (''elements'', JArr [cube_out])])"
    using cube_model[OF i, of test_lib] by simp
  have f: "\<not> force test_args" by (simp add: test_args_def)
  have pp: "planned_paths test_lib test_args (take 1 test_plans) =
     [''/assets/bloodstone/models/item/gem/default/gem.json'',
      ''/assets/bloodstone/textures/item/gem/default/tex.png'']"
    by (simp add: planned_paths_def model_path_def model_dir_def texture_paths_def
        texture_dir_def mcmeta_paths_def test_args_def test_names_def test_lib_def test_plans_def)
  have ex: "\<exists>p\<in>set (planned_paths test_lib test_args (take 1 test_plans)). path_exists ?fs p"
    unfolding pp by (simp add: path_exists_def)
  have fl: "filter (path_exists ?fs) (planned_paths test_lib test_args (take 1 test_plans))
      = [''/assets/bloodstone/models/item/gem/default/gem.json'']"
    unfolding pp by (simp add: path_exists_def)
  have msg: "collision_message [''/assets/bloodstone/models/item/gem/default/gem.json'']
      = ''Destination files already exist. Use --force to overwrite.'' @ newline @
           ''- /assets/bloodstone/models/item/gem/default/gem.json''"
    by (simp add: collision_message_def Let_def)
  note inst = destination_check_before_writes[where fs = ?fs and L = test_lib and A = test_args
      and doc = cube_doc and raw_width = "JInt 16" and raw_height = "JInt 16"
      and texture_plans = "take 1 test_plans"
      and model_json = "JObj [(''textures'',
                     JObj (map (\<lambda>(k, v). (k, JStr v)) (texture_object (take 1 test_plans)))),
                   (''elements'', JArr [cube_out])]"]
  from inst w h t m f ex have 1: "main test_lib test_args (JObj cube_doc) ?fs =
          (Inl (DestinationExists
             (collision_message (filter (path_exists ?fs)
                (planned_paths test_lib test_args (take 1 test_plans))))), ?fs)"
    by blast
  have 2: "ensure_writable Map.empty [''/a'', ''/b''] False = Inr ()"
    using destination_check_before_writes[where fs = Map.empty and paths = "[''/a'', ''/b'']"]
    by (simp add: path_exists_def)
  have 3: "ensure_writable eleven_fs [''/x/A''] True = Inr ()"
    by (simp add: ensure_writable_def)
  from 1 2 3 show ?thesis unfolding fl msg by simp
qed

section \<open>The loop over the elements\<close>

lemma is_dict_iff: "is_dict v = (\<exists>d. v = JObj d)"
  by (cases v) simp_all


lemma faces_loop_keeps:
  "faces_loop L P w h en raw_faces faces face_names = Inr r \<Longrightarrow> faces \<noteq> [] \<Longrightarrow> r \<noteq> []"
proof (induction face_names arbitrary: faces)
  case Nil
  then show ?case by simp
next
  case (Cons n face_names)
  show ?case
  proof (cases "dict_get raw_faces n")
    case (JObj raw_face)
    with Cons.prems(1) obtain fo where
      "faces_loop L P w h en raw_faces (dict_set faces n fo) face_names = Inr r"
      by (auto split: sum.splits)
    then show ?thesis by (rule Cons.IH) (rule dict_set_nonempty)
  qed (use Cons in simp_all)
qed

lemma faces_loop_empty_iff:
  "faces_loop L P w h en raw_faces faces face_names = Inr r \<Longrightarrow>
   (r = []) = (faces = [] \<and> (\<forall>n\<in>set face_names. \<not> is_dict (dict_get raw_faces n)))"
proof (induction face_names arbitrary: faces)
  case Nil
  then show ?case by auto
next
  case (Cons n face_names)
  show ?case
  proof (cases "dict_get raw_faces n")
    case (JObj raw_face)
    with Cons.prems(1) obtain fo where
      "faces_loop L P w h en raw_faces (dict_set faces n fo) face_names = Inr r"
      by (auto split: sum.splits)
    then have "r \<noteq> []" by (rule faces_loop_keeps) (rule dict_set_nonempty)
    with JObj show ?thesis by simp
  qed (use Cons in simp_all)
qed

lemma convert_element_None:
  assumes "convert_element L P w h elem idx = Inr None"
  shows "\<exists>raw_faces. dict_get elem ''faces'' = JObj raw_faces \<and>
           (\<forall>n\<in>set VALID_FACES. \<not> is_dict (dict_get raw_faces n))"
proof -
  from assms obtain raw_faces faces where rf: "dict_get elem ''faces'' = JObj raw_faces"
    and fl: "faces_loop L P w h (element_name L elem idx) raw_faces [] VALID_FACES = Inr faces"
    and e: "faces = []"
    unfolding convert_element_def Let_def
    by (auto split: sum.splits json.splits if_splits)
  from faces_loop_empty_iff[OF fl] e rf show ?thesis by simp
qed

lemma convert_element_Some:
  assumes "convert_element L P w h elem idx = Inr (Some c)"
  shows "\<exists>raw_faces d faces. dict_get elem ''faces'' = JObj raw_faces \<and>
           (\<exists>n\<in>set VALID_FACES. is_dict (dict_get raw_faces n)) \<and>
           c = JObj d \<and> map_of d ''faces'' = Some (JObj faces) \<and> faces \<noteq> []"
proof -
  from assms obtain raw_faces faces d where rf: "dict_get elem ''faces'' = JObj raw_faces"
    and fl: "faces_loop L P w h (element_name L elem idx) raw_faces [] VALID_FACES = Inr faces"
    and e: "faces \<noteq> []" and c: "c = JObj (dict_set d ''faces'' (JObj faces))"
    unfolding convert_element_def Let_def
    by (auto split: sum.splits json.splits if_splits)
  from faces_loop_empty_iff[OF fl] e have "\<exists>n\<in>set VALID_FACES. is_dict (dict_get raw_faces n)"
    by simp
  with rf e c show ?thesis by (auto simp: map_of_dict_set)
qed

lemma visible_textured_iff:
  "visible_textured (JObj elem) =
     (map_of elem ''visibility'' \<noteq> Some (JBool False) \<and>
      (\<exists>raw_faces. dict_get elem ''faces'' = JObj raw_faces \<and>
         (\<exists>n\<in>set VALID_FACES. is_dict (dict_get raw_faces n))))"
  by (auto simp: visible_textured_def list_ex_iff split: json.splits)

lemma elements_loop_result:
  "elements_loop L P w h idx acc es = Inr res \<Longrightarrow>
   \<exists>new. res = acc @ new \<and>
     list_all2 (\<lambda>e c. \<exists>elem i. e = JObj elem \<and> convert_element L P w h elem i = Inr (Some c))
       (filter visible_textured es) new"
proof (induction L P w h idx acc es rule: elements_loop.induct)
  case (1 L P w h idx acc)
  then show ?case by simp
next
  case (2 L P w h idx acc elem rest)
  show ?case
  proof (cases "map_of elem ''visibility'' = Some (JBool False)")
    case True
    then have nv: "\<not> visible_textured (JObj elem)" by (simp add: visible_textured_iff)
    from True "2.prems" have "elements_loop L P w h (idx + 1) acc rest = Inr res" by simp
    from "2.IH"(1)[OF True this] nv show ?thesis by simp
  next
    case False
    from False "2.prems" obtain x where x: "convert_element L P w h elem idx = Inr x"
      by (auto split: sum.splits)
    show ?thesis
    proof (cases x)
      case None
      with convert_element_None[of L P w h elem idx] x
      have nv: "\<not> visible_textured (JObj elem)" by (auto simp: visible_textured_iff)
      from False x None "2.prems" have "elements_loop L P w h (idx + 1) acc rest = Inr res"
        by simp
      from "2.IH"(2)[OF False x None this] nv show ?thesis by simp
    next
      case (Some c)
      with convert_element_Some[of L P w h elem idx c] x False
      have v: "visible_textured (JObj elem)" by (auto simp: visible_textured_iff)
      from False x Some "2.prems"
      have "elements_loop L P w h (idx + 1) (acc @ [c]) rest = Inr res" by simp
      from "2.IH"(3)[OF False x Some this] obtain new where
        new: "res = (acc @ [c]) @ new"
        "list_all2 (\<lambda>e c. \<exists>elem i. e = JObj elem \<and> convert_element L P w h elem i = Inr (Some c))
           (filter visible_textured rest) new" by blast
      have "convert_element L P w h elem idx = Inr (Some c)" using x Some by simp
      with new v show ?thesis by (intro exI[of _ "c # new"]) auto
    qed
  qed
qed simp_all

lemma list_all2_right_member:
  "list_all2 R xs ys \<Longrightarrow> y \<in> set ys \<Longrightarrow> \<exists>x\<in>set xs. R x y"
  by (induction rule: list_all2_induct) auto


lemma build_model_json_success:
  assumes "build_model_json L bbmodel P w h = Inr out"
  shows "\<exists>elements elems doc.
     dict_get bbmodel ''elements'' = JArr elements \<and>
     elements_loop L P w h 0 [] elements = Inr elems \<and> elems \<noteq> [] \<and> out = JObj doc \<and>
     map_of doc ''textures'' = Some (JObj (map (\<lambda>(k, v). (k, JStr v)) (texture_object P))) \<and>
     map_of doc ''elements'' = Some (JArr elems)"
proof -
  from assms obtain elements where el: "dict_get bbmodel ''elements'' = JArr elements"
    unfolding build_model_json_def by (auto split: json.splits)
  from assms el obtain elems where lp: "elements_loop L P w h 0 [] elements = Inr elems"
    unfolding build_model_json_def by (auto split: sum.splits)
  from assms el lp have ne: "elems \<noteq> []"
    unfolding build_model_json_def by (auto split: if_splits)
  from assms el lp ne obtain doc where "out = JObj doc"
     "map_of doc ''textures'' = Some (JObj (map (\<lambda>(k, v). (k, JStr v)) (texture_object P)))"
     "map_of doc ''elements'' = Some (JArr elems)"
    unfolding build_model_json_def Let_def
    by (auto simp: map_of_dict_set split: json.splits if_splits)
  with el lp ne show ?thesis by blast
qed

lemma build_model_json_elements:
  assumes "build_model_json L bbmodel P w h = Inr out"
  shows "\<exists>elements elems doc.
     dict_get bbmodel ''elements'' = JArr elements \<and> out = JObj doc \<and>
     map_of doc ''textures'' = Some (JObj (map (\<lambda>(k, v). (k, JStr v)) (texture_object P))) \<and>
     map_of doc ''elements'' = Some (JArr elems) \<and> elems \<noteq> [] \<and>
     list_all2 (\<lambda>e c. \<exists>elem i. e = JObj elem \<and> convert_element L P w h elem i = Inr (Some c))
       (filter visible_textured elements) elems"
proof -
  from build_model_json_success[OF assms] obtain elements elems doc where
    a: "dict_get bbmodel ''elements'' = JArr elements"
     "elements_loop L P w h 0 [] elements = Inr elems" "elems \<noteq> []" "out = JObj doc"
     "map_of doc ''textures'' = Some (JObj (map (\<lambda>(k, v). (k, JStr v)) (texture_object P)))"
     "map_of doc ''elements'' = Some (JArr elems)" by blast
  from elements_loop_result[OF a(2)] have
    "list_all2 (\<lambda>e c. \<exists>elem i. e = JObj elem \<and> convert_element L P w h elem i = Inr (Some c))
       (filter visible_textured elements) elems" by simp
  with a show ?thesis by blast
qed






section \<open>An empty result is an error\<close>




section \<open>The size of the target document\<close>

lemma digit_char_digit: "d < 10 \<Longrightarrow> digit_char d \<in> set ''0123456789''"
proof -
  assume "d < 10"
  then have "d < length ''0123456789''" by simp
  then show ?thesis unfolding digit_char_def by (rule nth_mem)
qed

lemma str_nat_digits: "set (str_nat n) \<subseteq> set ''0123456789''"
proof (induction n rule: str_nat.induct)
  case (1 n)
  show ?case
  proof (cases "n < 10")
    case True
    then show ?thesis using digit_char_digit[of n] by (simp add: str_nat_small)
  next
    case False
    have "n mod 10 < 10" by simp
    from digit_char_digit[OF this] 1[OF False] False show ?thesis
      by (simp add: str_nat_large)
  qed
qed

lemma str_nat_not_particle: "str_nat n \<noteq> ''particle''"
proof
  assume "str_nat n = ''particle''"
  then have "CHR ''p'' \<in> set (str_nat n)" by simp
  with str_nat_digits[of n] show False by auto
qed

lemma particle_not_str_nat: "''particle'' \<noteq> str_nat n"
  using str_nat_not_particle[of n] by (rule not_sym)

lemma dict_set_append: "k \<notin> fst ` set d \<Longrightarrow> dict_set d k v = d @ [(k, v)]"
  by (induction d k v rule: dict_set.induct) auto

lemma fold_dict_set_distinct:
  "distinct (map f xs) \<Longrightarrow> set (map f xs) \<inter> fst ` set d = {} \<Longrightarrow>
   fold (\<lambda>x d. dict_set d (f x) (g x)) xs d = d @ map (\<lambda>x. (f x, g x)) xs"
proof (induction xs arbitrary: d)
  case Nil
  then show ?case by simp
next
  case (Cons x xs)
  from Cons.prems have nk: "f x \<notin> fst ` set d" by auto
  have step: "dict_set d (f x) (g x) = d @ [(f x, g x)]" by (rule dict_set_append[OF nk])
  have "fold (\<lambda>x d. dict_set d (f x) (g x)) xs (d @ [(f x, g x)])
      = (d @ [(f x, g x)]) @ map (\<lambda>x. (f x, g x)) xs"
    using Cons.prems by (intro Cons.IH) auto
  with step show ?case by simp
qed

lemma texture_object_indexed:
  assumes "map index P = [0..<n]" "P \<noteq> []"
  shows "texture_object P =
     map (\<lambda>plan. (str_nat (index plan), rel_namespace_path plan)) P
     @ [(''particle'', rel_namespace_path (hd P))]"
proof -
  have "map (\<lambda>plan. str_nat (index plan)) P = map str_nat (map index P)" by simp
  also have "distinct (map str_nat (map index P))"
    unfolding assms(1) by (simp add: distinct_map inj_on_def str_nat_inj)
  finally have d: "distinct (map (\<lambda>plan. str_nat (index plan)) P)" .
  have tbl: "fold (\<lambda>plan d. dict_set d (str_nat (index plan)) (rel_namespace_path plan)) P []
      = map (\<lambda>plan. (str_nat (index plan), rel_namespace_path plan)) P"
    using fold_dict_set_distinct[OF d, of "[]" rel_namespace_path] by simp
  have "''particle'' \<notin> fst ` set (map (\<lambda>plan. (str_nat (index plan), rel_namespace_path plan)) P)"
    by (auto simp: image_iff particle_not_str_nat)
  from dict_set_append[OF this] tbl assms(2) show ?thesis
    by (simp add: texture_object_def Let_def)
qed

lemma convert_face_needs_plan: "convert_face L [] w h en fn raw_face \<noteq> Inr face"
  by (auto simp: convert_face_def in_texture_lookup_def split: sum.splits option.splits)

lemma faces_loop_no_plans:
  "faces_loop L [] w h en raw_faces faces face_names = Inr r \<Longrightarrow> r = faces"
proof (induction face_names arbitrary: faces)
  case Nil
  then show ?case by simp
next
  case (Cons n face_names)
  show ?case
  proof (cases "dict_get raw_faces n")
    case (JObj raw_face)
    with Cons.prems convert_face_needs_plan[of L w h en n raw_face] show ?thesis
      by (auto split: sum.splits)
  qed (use Cons in simp_all)
qed

lemma convert_element_no_plans: "convert_element L [] w h elem idx \<noteq> Inr (Some c)"
proof
  assume a: "convert_element L [] w h elem idx = Inr (Some c)"
  then obtain raw_faces faces where
    fl: "faces_loop L [] w h (element_name L elem idx) raw_faces [] VALID_FACES = Inr faces"
    and e: "faces \<noteq> []"
    unfolding convert_element_def Let_def
    by (auto split: sum.splits json.splits if_splits)
  from faces_loop_no_plans[OF fl] e show False by simp
qed

lemma build_model_json_needs_plan:
  assumes "build_model_json L bbmodel P w h = Inr out"
  shows "P \<noteq> []"
proof
  assume p: "P = []"
  from build_model_json_elements[OF assms] obtain elements elems where
    ne: "elems \<noteq> []" and
    la: "list_all2 (\<lambda>e c. \<exists>elem i. e = JObj elem \<and> convert_element L P w h elem i = Inr (Some c))
       (filter visible_textured elements) elems" by blast
  from ne obtain c where "c \<in> set elems" by (cases elems) auto
  from list_all2_right_member[OF la this] p convert_element_no_plans show False by blast
qed

text \<open>
  Claim C1. When the textures of a document are resolved and the document converts, the
  texture table of the target document has one entry more than the document has textures:
  its keys are the decimal strings of the indices from 0, in order, followed by
  \<^verbatim>\<open>particle\<close>, they are pairwise distinct, the values are the resource references of the
  plans, and \<^verbatim>\<open>particle\<close> has the reference of the texture 0. (A document that converts has
  at least one texture.) The element array has as many entries as the document has
  elements that are visible and have a face, and its entries are the converted ones of
  these, in the order of the document.
\<close>

theorem target_document_counts:
  assumes "build_texture_plans L fs bbmodel dir N = Inr texture_plans"
    and "build_model_json L bbmodel texture_plans w h = Inr out"
  shows "\<exists>raw_textures elements doc tex elems.
     dict_get bbmodel ''textures'' = JArr raw_textures \<and>
     dict_get bbmodel ''elements'' = JArr elements \<and>
     out = JObj doc \<and> map_of doc ''textures'' = Some (JObj tex) \<and>
     map_of doc ''elements'' = Some (JArr elems) \<and>
     length tex = length raw_textures + 1 \<and>
     map fst tex = map str_nat [0..<length raw_textures] @ [''particle''] \<and>
     distinct (map fst tex) \<and>
     map snd tex = map (\<lambda>plan. JStr (rel_namespace_path plan)) texture_plans
                   @ [JStr (rel_namespace_path (hd texture_plans))] \<and>
     length texture_plans = length raw_textures \<and> 0 < length raw_textures \<and>
     map_of tex ''particle'' = map_of tex (str_nat 0) \<and>
     length elems = length (filter visible_textured elements) \<and>
     list_all2 (\<lambda>e c. \<exists>elem i. e = JObj elem \<and>
                  convert_element L texture_plans w h elem i = Inr (Some c))
       (filter visible_textured elements) elems"
proof -
  from build_texture_plans_indices[OF assms(1)] obtain raw_textures where
    raw: "dict_get bbmodel ''textures'' = JArr raw_textures"
    and len: "length texture_plans = length raw_textures"
    and idx: "map index texture_plans = [0..<length raw_textures]" by blast
  from build_model_json_elements[OF assms(2)] obtain elements elems doc where
    el: "dict_get bbmodel ''elements'' = JArr elements" and out: "out = JObj doc"
    and tx: "map_of doc ''textures''
        = Some (JObj (map (\<lambda>(k, v). (k, JStr v)) (texture_object texture_plans)))"
    and es: "map_of doc ''elements'' = Some (JArr elems)"
    and la: "list_all2 (\<lambda>e c. \<exists>elem i. e = JObj elem \<and>
                  convert_element L texture_plans w h elem i = Inr (Some c))
       (filter visible_textured elements) elems" by blast
  have ne: "texture_plans \<noteq> []" by (rule build_model_json_needs_plan[OF assms(2)])
  let ?tex = "map (\<lambda>(k, v). (k, JStr v)) (texture_object texture_plans)"
  have to: "texture_object texture_plans =
     map (\<lambda>plan. (str_nat (index plan), rel_namespace_path plan)) texture_plans
     @ [(''particle'', rel_namespace_path (hd texture_plans))]"
    by (rule texture_object_indexed[OF idx ne])
  have keys: "map fst ?tex = map str_nat [0..<length raw_textures] @ [''particle'']"
  proof -
    have "map fst ?tex = map str_nat (map index texture_plans) @ [''particle'']"
      unfolding to by (simp add: comp_def)
    then show ?thesis unfolding idx .
  qed
  have dist: "distinct (map fst ?tex)"
    unfolding keys
    by (auto simp: distinct_map inj_on_def str_nat_inj particle_not_str_nat)
  have vals: "map snd ?tex = map (\<lambda>plan. JStr (rel_namespace_path plan)) texture_plans
                   @ [JStr (rel_namespace_path (hd texture_plans))]"
    unfolding to by (simp add: comp_def)
  have l: "length ?tex = length raw_textures + 1"
    unfolding to by (simp add: len)
  from ne obtain p ps where pp: "texture_plans = p # ps" by (cases texture_plans) auto
  with idx have i0: "index p = 0" by (cases raw_textures) (simp_all add: upt_rec)
  have part: "map_of ?tex ''particle'' = map_of ?tex (str_nat 0)"
  proof -
    have to': "texture_object texture_plans =
        (str_nat 0, rel_namespace_path p) #
        map (\<lambda>plan. (str_nat (index plan), rel_namespace_path plan)) ps
        @ [(''particle'', rel_namespace_path p)]"
      using to i0 unfolding pp by simp
    have k: "map_of ?tex (str_nat 0) = Some (JStr (rel_namespace_path p))"
      unfolding to' by simp
    have "map_of ?tex ''particle'' = Some (JStr (rel_namespace_path (hd texture_plans)))"
      using dist unfolding to by (intro map_of_is_SomeI) (simp_all add: comp_def)
    with k pp show ?thesis by simp
  qed
  from ne len have pos: "0 < length raw_textures" by auto
  from la have le: "length elems = length (filter visible_textured elements)"
    by (simp add: list_all2_lengthD)
  from raw el out tx es l keys dist vals len pos part le la show ?thesis by blast
qed

theorem target_document_counts_witness:
  "build_texture_plans test_lib Map.empty cube_doc ''/models'' test_names
     = Inr (take 1 test_plans)
   \<and> build_model_json test_lib cube_doc (take 1 test_plans) 16 16
     = Inr (JObj [(''textures'',
                    JObj [(''0'', JStr ''bloodstone:item/gem/default/tex''),
                          (''particle'', JStr ''bloodstone:item/gem/default/tex'')]),
                  (''elements'', JArr [cube_out])])
   \<and> length (filter visible_textured [JObj cube_elem, JObj hidden_elem, JObj faceless_elem]) = 1"
proof -
  have t: "build_texture_plans test_lib Map.empty cube_doc ''/models'' test_names
     = Inr (take 1 test_plans)" by (rule cube_texture_plans)
  have i: "0 \<in> set (map index (take 1 test_plans))" by (simp add: test_plans_def)
  have to: "texture_object (take 1 test_plans) =
      [(''0'', ''bloodstone:item/gem/default/tex''),
       (''particle'', ''bloodstone:item/gem/default/tex'')]"
    by (simp add: texture_object_def test_plans_def str_nat.simps digit_char_def)
  have m: "build_model_json test_lib cube_doc (take 1 test_plans) 16 16
     = Inr (JObj [(''textures'',
                    JObj [(''0'', JStr ''bloodstone:item/gem/default/tex''),
                          (''particle'', JStr ''bloodstone:item/gem/default/tex'')]),
                  (''elements'', JArr [cube_out])])"
    using cube_model[OF i, of test_lib] unfolding to by simp
  have v: "length (filter visible_textured [JObj cube_elem, JObj hidden_elem, JObj faceless_elem]) = 1"
    by (simp add: visible_textured_def cube_elem_def hidden_elem_def faceless_elem_def
        dict_get_def VALID_FACES_def cube_face_def)
  from target_document_counts[OF t m] t m v show ?thesis by blast
qed

end
